theory Spec2Isabelle
  imports Main
begin

section \<open>JavaScript primitives used by the chord analysis library\<close>

text \<open>
  All numbers of the library are integers in every call the analysis makes; they are
  modelled as \<^typ>\<open>int\<close>. The remainder operator \<^verbatim>\<open>%\<close> truncates towards zero
  (the result takes the sign of the dividend).
\<close>

definition js_rem :: "int \<Rightarrow> int \<Rightarrow> int" where
  "js_rem a b = sgn a * (\<bar>a\<bar> mod \<bar>b\<bar>)"

text \<open>\<^verbatim>\<open>String.prototype.startsWith\<close>, \<^verbatim>\<open>includes\<close> (here \<open>str_includes\<close>: the name is reserved), \<^verbatim>\<open>endsWith\<close>.\<close>

fun startsWith :: "string \<Rightarrow> string \<Rightarrow> bool" where
  "startsWith s [] = True"
| "startsWith [] (p # ps) = False"
| "startsWith (c # cs) (p # ps) = (c = p \<and> startsWith cs ps)"

fun str_includes :: "string \<Rightarrow> string \<Rightarrow> bool" where
  "str_includes [] sub = (sub = [])"
| "str_includes (c # cs) sub = (startsWith (c # cs) sub \<or> str_includes cs sub)"

definition endsWith :: "string \<Rightarrow> string \<Rightarrow> bool" where
  "endsWith s suf = startsWith (rev s) (rev suf)"

text \<open>
  \<^verbatim>\<open>String.prototype.replace\<close> with a string pattern: only the first occurrence is
  replaced. None of the replacement strings of the library contains a dollar sign.
\<close>

fun replace :: "string \<Rightarrow> string \<Rightarrow> string \<Rightarrow> string" where
  "replace [] pat rep = (if pat = [] then rep else [])"
| "replace (c # cs) pat rep =
     (if startsWith (c # cs) pat then rep @ drop (length pat) (c # cs)
      else c # replace cs pat rep)"

text \<open>\<^verbatim>\<open>Array.prototype.join\<close> on an array of strings.\<close>

fun join :: "string list \<Rightarrow> string \<Rightarrow> string" where
  "join [] sep = []"
| "join [x] sep = x"
| "join (x # y # ys) sep = x @ sep @ join (y # ys) sep"

text \<open>\<^verbatim>\<open>Math.min(x, ...xs)\<close> on a non-empty argument list.\<close>

definition Math_min :: "int \<Rightarrow> int list \<Rightarrow> int" where
  "Math_min x xs = fold min xs x"

text \<open>
  Reading a property of \<^verbatim>\<open>undefined\<close> throws a \<^verbatim>\<open>TypeError\<close>; it is the only
  exception the library can raise.
\<close>

datatype error = TypeError

section \<open>Enharmonic spelling\<close>

record RootSpelling =
  useFlat :: bool
  scale :: "string list"

definition ROOT_SPELLING :: "int \<Rightarrow> RootSpelling option" where
  "ROOT_SPELLING = map_of
    [(0,  \<lparr>useFlat = False, scale = [''C'', ''Db'', ''D'', ''Eb'', ''E'', ''F'', ''F#'', ''G'', ''Ab'', ''A'', ''Bb'', ''B'']\<rparr>),
     (1,  \<lparr>useFlat = False, scale = [''C#'', ''D'', ''D#'', ''E'', ''E#'', ''F#'', ''G'', ''G#'', ''A'', ''A#'', ''B'', ''B#'']\<rparr>),
     (2,  \<lparr>useFlat = False, scale = [''D'', ''Eb'', ''E'', ''F'', ''F#'', ''G'', ''Ab'', ''A'', ''Bb'', ''B'', ''C'', ''C#'']\<rparr>),
     (3,  \<lparr>useFlat = True,  scale = [''Eb'', ''Fb'', ''F'', ''Gb'', ''G'', ''Ab'', ''A'', ''Bb'', ''Cb'', ''C'', ''Db'', ''D'']\<rparr>),
     (4,  \<lparr>useFlat = False, scale = [''E'', ''F'', ''F#'', ''G'', ''G#'', ''A'', ''Bb'', ''B'', ''C'', ''C#'', ''D'', ''D#'']\<rparr>),
     (5,  \<lparr>useFlat = True,  scale = [''F'', ''Gb'', ''G'', ''Ab'', ''A'', ''Bb'', ''B'', ''C'', ''Db'', ''D'', ''Eb'', ''E'']\<rparr>),
     (6,  \<lparr>useFlat = False, scale = [''F#'', ''G'', ''G#'', ''A'', ''A#'', ''B'', ''C'', ''C#'', ''D'', ''D#'', ''E'', ''E#'']\<rparr>),
     (7,  \<lparr>useFlat = False, scale = [''G'', ''Ab'', ''A'', ''Bb'', ''B'', ''C'', ''Db'', ''D'', ''Eb'', ''E'', ''F'', ''F#'']\<rparr>),
     (8,  \<lparr>useFlat = True,  scale = [''Ab'', ''A'', ''Bb'', ''Cb'', ''C'', ''Db'', ''D'', ''Eb'', ''Fb'', ''F'', ''Gb'', ''G'']\<rparr>),
     (9,  \<lparr>useFlat = False, scale = [''A'', ''Bb'', ''B'', ''C'', ''C#'', ''D'', ''Eb'', ''E'', ''F'', ''F#'', ''G'', ''G#'']\<rparr>),
     (10, \<lparr>useFlat = True,  scale = [''Bb'', ''Cb'', ''C'', ''Db'', ''D'', ''Eb'', ''Fb'', ''F'', ''Gb'', ''G'', ''Ab'', ''A'']\<rparr>),
     (11, \<lparr>useFlat = False, scale = [''B'', ''C'', ''C#'', ''D'', ''D#'', ''E'', ''F'', ''F#'', ''G'', ''G#'', ''A'', ''A#'']\<rparr>)]"

text \<open>
  \<^verbatim>\<open>getRootSpelling(rootPitchClass, bassContext?)\<close>. An absent context is
  \<^verbatim>\<open>undefined\<close>, which is falsy; an array (also an empty one) is truthy.
\<close>

definition getRootSpelling :: "int \<Rightarrow> int list option \<Rightarrow> error + string" where
  "getRootSpelling rootPitchClass bassContext =
    (let ctx = (case bassContext of None \<Rightarrow> [] | Some c \<Rightarrow> c);
         hasSharpIndicators =
           (6 \<in> set ctx \<or> 1 \<in> set ctx \<or> 8 \<in> set ctx \<or> 4 \<in> set ctx \<or> 11 \<in> set ctx);
         hasFlatIndicators = (10 \<in> set ctx \<or> 3 \<in> set ctx \<or> 5 \<in> set ctx)
     in
       if rootPitchClass = 1 then
         (if hasFlatIndicators \<and> \<not> hasSharpIndicators then Inr ''Db'' else Inr ''C#'')
       else if rootPitchClass = 3 then
         (if hasSharpIndicators \<and> \<not> hasFlatIndicators \<and>
             (4 \<in> set ctx \<or> 11 \<in> set ctx \<or> 6 \<in> set ctx)
          then Inr ''D#'' else Inr ''Eb'')
       else if rootPitchClass = 6 then
         (if hasFlatIndicators \<and> (1 \<in> set ctx \<or> 8 \<in> set ctx) \<and>
             4 \<notin> set ctx \<and> 11 \<notin> set ctx
          then Inr ''Gb'' else Inr ''F#'')
       else if rootPitchClass = 8 then
         (if hasSharpIndicators \<and> \<not> hasFlatIndicators \<and>
             (4 \<in> set ctx \<or> 9 \<in> set ctx \<or> 11 \<in> set ctx)
          then Inr ''G#'' else Inr ''Ab'')
       else if rootPitchClass = 10 then
         (if hasSharpIndicators \<and> \<not> hasFlatIndicators \<and>
             (11 \<in> set ctx \<or> 6 \<in> set ctx)
          then Inr ''A#'' else Inr ''Bb'')
       else
         (case ROOT_SPELLING rootPitchClass of
            None \<Rightarrow> Inl TypeError
          | Some rs \<Rightarrow> Inr (scale rs ! 0)))"

definition getChordToneSpelling :: "int \<Rightarrow> int \<Rightarrow> error + string" where
  "getChordToneSpelling pitchClass rootPitchClass =
    (let interval = js_rem (js_rem (pitchClass - rootPitchClass) 12 + 12) 12
     in case ROOT_SPELLING rootPitchClass of
          None \<Rightarrow> Inl TypeError
        | Some rs \<Rightarrow> Inr (scale rs ! nat interval))"

section \<open>Interval calculations\<close>

text \<open>
  \<^verbatim>\<open>normalizeIntervals\<close>: mod 12, unique, sorted ascending. The set of the source keeps
  the first occurrence of a value and \<^const>\<open>remdups\<close> the last one; the numeric sort that
  follows makes both the same list.
\<close>

definition normalizeIntervals :: "int list \<Rightarrow> int list" where
  "normalizeIntervals ivs = sort (remdups (map (\<lambda>i. js_rem (js_rem i 12 + 12) 12) ivs))"

record ActualIntervalInfo =
  pitchClass :: int
  actualInterval :: int
  midi :: int

definition calculateActualIntervals :: "int list \<Rightarrow> int \<Rightarrow> ActualIntervalInfo list" where
  "calculateActualIntervals sortedMidiNotes rootPitchClass =
    (case sortedMidiNotes of
       [] \<Rightarrow> []
     | lowestNote # _ \<Rightarrow>
         (let rootInstances = filter (\<lambda>n. js_rem n 12 = rootPitchClass) sortedMidiNotes;
              rootMidi =
                (case rootInstances of
                   r # rs \<Rightarrow> Math_min r rs
                 | [] \<Rightarrow>
                     (let lowestPitchClass = js_rem lowestNote 12;
                          intervalFromRoot =
                            js_rem (js_rem (lowestPitchClass - rootPitchClass) 12 + 12) 12
                      in lowestNote - intervalFromRoot))
          in map (\<lambda>m. \<lparr>pitchClass = js_rem m 12, actualInterval = m - rootMidi, midi = m\<rparr>)
               sortedMidiNotes))"

definition getActualIntervalForPitchClass ::
    "ActualIntervalInfo list \<Rightarrow> int \<Rightarrow> int \<Rightarrow> int" where
  "getActualIntervalForPitchClass actualIntervals targetPitchClass rootPitchClass =
    (let expectedMod12 = js_rem (js_rem (targetPitchClass - rootPitchClass) 12 + 12) 12;
         matches = filter (\<lambda>info. pitchClass info = targetPitchClass) actualIntervals
     in case matches of
          [] \<Rightarrow> expectedMod12
        | m # ms \<Rightarrow>
            (case find (\<lambda>m. actualInterval m > 12) matches of
               Some compoundMatch \<Rightarrow> actualInterval compoundMatch
             | None \<Rightarrow> Math_min (actualInterval m) (map actualInterval ms)))"

record TensionDisambiguation =
  interval3IsSharp9 :: bool
  interval6IsSharp11 :: bool
  interval8IsSharp5 :: bool

text \<open>The parameter \<^verbatim>\<open>hasMin3\<close> is not read by the source either.\<close>

definition disambiguateTensions ::
    "ActualIntervalInfo list \<Rightarrow> int \<Rightarrow> bool \<Rightarrow> bool \<Rightarrow> bool \<Rightarrow> bool \<Rightarrow> TensionDisambiguation" where
  "disambiguateTensions actualIntervals rootPitchClass hasMaj3 hasMin3 has7th hasPerfect5 =
    (let pitchClass3 = js_rem (rootPitchClass + 3) 12;
         interval3Actual =
           getActualIntervalForPitchClass actualIntervals pitchClass3 rootPitchClass;
         sharp9 =
           (if interval3Actual \<ge> 14 then True
            else if hasMaj3 then
              (let maj3PitchClass = js_rem (rootPitchClass + 4) 12;
                   maj3Instances = filter (\<lambda>i. pitchClass i = maj3PitchClass) actualIntervals;
                   pc3Instances = filter (\<lambda>i. pitchClass i = pitchClass3) actualIntervals
               in case (map midi maj3Instances, map midi pc3Instances) of
                    (a # as, b # bs) \<Rightarrow>
                      (let lowestMaj3 = Math_min a as; lowestPc3 = Math_min b bs
                       in lowestPc3 > lowestMaj3)
                  | (_, b # bs) \<Rightarrow> has7th
                  | (_, []) \<Rightarrow> False)
            else False);
         pitchClass6 = js_rem (rootPitchClass + 6) 12;
         interval6Actual =
           getActualIntervalForPitchClass actualIntervals pitchClass6 rootPitchClass;
         sharp11 =
           (if interval6Actual \<ge> 17 then True
            else if hasPerfect5 \<and> hasMaj3 then True
            else if has7th \<and> hasMaj3 \<and> \<not> hasPerfect5 then
              list_ex (\<lambda>i. js_rem (pitchClass i - rootPitchClass + 12) 12 = 11) actualIntervals
            else False);
         pitchClass8 = js_rem (rootPitchClass + 8) 12;
         interval8Actual =
           getActualIntervalForPitchClass actualIntervals pitchClass8 rootPitchClass;
         sharp5 =
           (if interval8Actual \<ge> 19 then False
            else if hasPerfect5 then False
            else if \<not> hasPerfect5 \<and> \<not> has7th then True
            else False)
     in \<lparr>interval3IsSharp9 = sharp9, interval6IsSharp11 = sharp11, interval8IsSharp5 = sharp5\<rparr>)"

section \<open>Chord patterns\<close>

record ChordPattern =
  name :: string
  intervals :: "int list"
  priority :: int
  allowOmit5th :: bool

definition COMMON_EXTENSIONS :: "int set" where
  "COMMON_EXTENSIONS = {2, 5, 9}"

definition calculateExtraNotesPenalty :: "int list \<Rightarrow> int list \<Rightarrow> int" where
  "calculateExtraNotesPenalty extraIntervals patternIntervals =
    (let patternHas7th = list_ex (\<lambda>i. i = 10 \<or> i = 11) patternIntervals
     in fold (\<lambda>interval penalty.
               if interval \<in> COMMON_EXTENSIONS
               then penalty + (if patternHas7th then 3 else 6)
               else penalty + 18)
          extraIntervals 0)"

text \<open>
  The catalog, in the order of the source. An absent \<^verbatim>\<open>allowOmit5th\<close> is
  \<^verbatim>\<open>undefined\<close>, which every test of the flag reads as false.
\<close>

definition CHORD_PATTERNS :: "ChordPattern list" where
  "CHORD_PATTERNS =
    [\<lparr>name = ''Maj13'', intervals = normalizeIntervals [0, 4, 7, 11, 14, 21], priority = 65, allowOmit5th = True\<rparr>,
     \<lparr>name = ''13'', intervals = normalizeIntervals [0, 4, 7, 10, 14, 21], priority = 65, allowOmit5th = True\<rparr>,
     \<lparr>name = ''min13'', intervals = normalizeIntervals [0, 3, 7, 10, 14, 21], priority = 65, allowOmit5th = True\<rparr>,
     \<lparr>name = ''13sus4'', intervals = normalizeIntervals [0, 5, 7, 10, 14, 21], priority = 64, allowOmit5th = True\<rparr>,
     \<lparr>name = ''Maj9#11'', intervals = normalizeIntervals [0, 4, 7, 11, 14, 18], priority = 62, allowOmit5th = True\<rparr>,
     \<lparr>name = ''9#11'', intervals = normalizeIntervals [0, 4, 7, 10, 14, 18], priority = 62, allowOmit5th = True\<rparr>,
     \<lparr>name = ''Maj11'', intervals = normalizeIntervals [0, 4, 7, 11, 14, 17], priority = 60, allowOmit5th = True\<rparr>,
     \<lparr>name = ''11'', intervals = normalizeIntervals [0, 4, 7, 10, 14, 17], priority = 60, allowOmit5th = True\<rparr>,
     \<lparr>name = ''min11'', intervals = normalizeIntervals [0, 3, 7, 10, 14, 17], priority = 60, allowOmit5th = True\<rparr>,
     \<lparr>name = ''Maj9'', intervals = normalizeIntervals [0, 4, 7, 11, 14], priority = 55, allowOmit5th = True\<rparr>,
     \<lparr>name = ''9'', intervals = normalizeIntervals [0, 4, 7, 10, 14], priority = 55, allowOmit5th = True\<rparr>,
     \<lparr>name = ''min9'', intervals = normalizeIntervals [0, 3, 7, 10, 14], priority = 55, allowOmit5th = True\<rparr>,
     \<lparr>name = ''minMaj9'', intervals = normalizeIntervals [0, 3, 7, 11, 14], priority = 55, allowOmit5th = True\<rparr>,
     \<lparr>name = ''9sus4'', intervals = normalizeIntervals [0, 5, 7, 10, 14], priority = 54, allowOmit5th = True\<rparr>,
     \<lparr>name = ''13b9'', intervals = normalizeIntervals [0, 4, 7, 10, 13, 21], priority = 66, allowOmit5th = True\<rparr>,
     \<lparr>name = ''13#9'', intervals = normalizeIntervals [0, 4, 7, 10, 15, 21], priority = 66, allowOmit5th = True\<rparr>,
     \<lparr>name = ''7b9#11'', intervals = normalizeIntervals [0, 4, 7, 10, 13, 18], priority = 58, allowOmit5th = True\<rparr>,
     \<lparr>name = ''7#9#11'', intervals = normalizeIntervals [0, 4, 7, 10, 15, 18], priority = 58, allowOmit5th = True\<rparr>,
     \<lparr>name = ''7b9b13'', intervals = normalizeIntervals [0, 4, 7, 10, 13, 20], priority = 58, allowOmit5th = False\<rparr>,
     \<lparr>name = ''7#9b13'', intervals = normalizeIntervals [0, 4, 7, 10, 15, 20], priority = 58, allowOmit5th = False\<rparr>,
     \<lparr>name = ''7alt'', intervals = normalizeIntervals [0, 4, 6, 10, 13, 15], priority = 59, allowOmit5th = False\<rparr>,
     \<lparr>name = ''Maj7#9'', intervals = normalizeIntervals [0, 4, 7, 11, 15], priority = 56, allowOmit5th = True\<rparr>,
     \<lparr>name = ''7#9'', intervals = normalizeIntervals [0, 4, 7, 10, 15], priority = 54, allowOmit5th = True\<rparr>,
     \<lparr>name = ''7b9'', intervals = normalizeIntervals [0, 4, 7, 10, 13], priority = 54, allowOmit5th = True\<rparr>,
     \<lparr>name = ''7#5#9'', intervals = normalizeIntervals [0, 4, 8, 10, 15], priority = 56, allowOmit5th = False\<rparr>,
     \<lparr>name = ''7#5b9'', intervals = normalizeIntervals [0, 4, 8, 10, 13], priority = 56, allowOmit5th = False\<rparr>,
     \<lparr>name = ''7b5b9'', intervals = normalizeIntervals [0, 4, 6, 10, 13], priority = 56, allowOmit5th = False\<rparr>,
     \<lparr>name = ''7b5#9'', intervals = normalizeIntervals [0, 4, 6, 10, 15], priority = 56, allowOmit5th = False\<rparr>,
     \<lparr>name = ''7b13'', intervals = normalizeIntervals [0, 4, 7, 10, 20], priority = 53, allowOmit5th = False\<rparr>,
     \<lparr>name = ''m9b5'', intervals = normalizeIntervals [0, 3, 6, 10, 14], priority = 56, allowOmit5th = False\<rparr>,
     \<lparr>name = ''m11b5'', intervals = normalizeIntervals [0, 3, 6, 10, 14, 17], priority = 58, allowOmit5th = False\<rparr>,
     \<lparr>name = ''m7b5(11)'', intervals = normalizeIntervals [0, 3, 6, 10, 17], priority = 54, allowOmit5th = False\<rparr>,
     \<lparr>name = ''Maj7#11'', intervals = normalizeIntervals [0, 4, 7, 11, 18], priority = 52, allowOmit5th = True\<rparr>,
     \<lparr>name = ''7#11'', intervals = normalizeIntervals [0, 4, 7, 10, 18], priority = 52, allowOmit5th = True\<rparr>,
     \<lparr>name = ''6/9'', intervals = normalizeIntervals [0, 4, 7, 9, 14], priority = 52, allowOmit5th = True\<rparr>,
     \<lparr>name = ''min6/9'', intervals = normalizeIntervals [0, 3, 7, 9, 14], priority = 52, allowOmit5th = True\<rparr>,
     \<lparr>name = ''7sus4'', intervals = [0, 5, 7, 10], priority = 46, allowOmit5th = False\<rparr>,
     \<lparr>name = ''7sus2'', intervals = [0, 2, 7, 10], priority = 46, allowOmit5th = False\<rparr>,
     \<lparr>name = ''Maj7sus4'', intervals = [0, 5, 7, 11], priority = 46, allowOmit5th = False\<rparr>,
     \<lparr>name = ''Maj7sus2'', intervals = [0, 2, 7, 11], priority = 46, allowOmit5th = False\<rparr>,
     \<lparr>name = ''Maj7'', intervals = [0, 4, 7, 11], priority = 45, allowOmit5th = True\<rparr>,
     \<lparr>name = ''min7'', intervals = [0, 3, 7, 10], priority = 45, allowOmit5th = True\<rparr>,
     \<lparr>name = ''7'', intervals = [0, 4, 7, 10], priority = 45, allowOmit5th = True\<rparr>,
     \<lparr>name = ''dim7'', intervals = [0, 3, 6, 9], priority = 45, allowOmit5th = False\<rparr>,
     \<lparr>name = ''m7b5'', intervals = [0, 3, 6, 10], priority = 45, allowOmit5th = False\<rparr>,
     \<lparr>name = ''minMaj7'', intervals = [0, 3, 7, 11], priority = 45, allowOmit5th = True\<rparr>,
     \<lparr>name = ''Maj7#5'', intervals = [0, 4, 8, 11], priority = 46, allowOmit5th = False\<rparr>,
     \<lparr>name = ''7#5'', intervals = [0, 4, 8, 10], priority = 46, allowOmit5th = False\<rparr>,
     \<lparr>name = ''7b5'', intervals = [0, 4, 6, 10], priority = 46, allowOmit5th = False\<rparr>,
     \<lparr>name = ''6'', intervals = [0, 4, 7, 9], priority = 42, allowOmit5th = True\<rparr>,
     \<lparr>name = ''min6'', intervals = [0, 3, 7, 9], priority = 42, allowOmit5th = True\<rparr>,
     \<lparr>name = ''add9'', intervals = normalizeIntervals [0, 4, 7, 14], priority = 40, allowOmit5th = True\<rparr>,
     \<lparr>name = ''madd9'', intervals = normalizeIntervals [0, 3, 7, 14], priority = 40, allowOmit5th = True\<rparr>,
     \<lparr>name = ''add11'', intervals = normalizeIntervals [0, 4, 7, 17], priority = 40, allowOmit5th = True\<rparr>,
     \<lparr>name = ''madd11'', intervals = normalizeIntervals [0, 3, 7, 17], priority = 40, allowOmit5th = True\<rparr>,
     \<lparr>name = ''add#11'', intervals = normalizeIntervals [0, 4, 7, 18], priority = 40, allowOmit5th = False\<rparr>,
     \<lparr>name = ''add#9'', intervals = normalizeIntervals [0, 4, 7, 15], priority = 41, allowOmit5th = True\<rparr>,
     \<lparr>name = ''madd#9'', intervals = normalizeIntervals [0, 3, 7, 15], priority = 41, allowOmit5th = True\<rparr>,
     \<lparr>name = ''(add b3)'', intervals = [0, 3, 4, 7], priority = 40, allowOmit5th = False\<rparr>,
     \<lparr>name = ''m(add 3)'', intervals = [0, 3, 4, 7], priority = 39, allowOmit5th = False\<rparr>,
     \<lparr>name = '''', intervals = [0, 4, 7], priority = 35, allowOmit5th = False\<rparr>,
     \<lparr>name = ''m'', intervals = [0, 3, 7], priority = 35, allowOmit5th = False\<rparr>,
     \<lparr>name = ''dim'', intervals = [0, 3, 6], priority = 35, allowOmit5th = False\<rparr>,
     \<lparr>name = ''aug'', intervals = [0, 4, 8], priority = 35, allowOmit5th = False\<rparr>,
     \<lparr>name = ''sus2'', intervals = [0, 2, 7], priority = 33, allowOmit5th = False\<rparr>,
     \<lparr>name = ''sus4'', intervals = [0, 5, 7], priority = 33, allowOmit5th = False\<rparr>,
     \<lparr>name = ''(#11)'', intervals = [0, 4, 6], priority = 34, allowOmit5th = False\<rparr>,
     \<lparr>name = ''(b5)'', intervals = [0, 4, 6], priority = 33, allowOmit5th = False\<rparr>,
     \<lparr>name = ''quartal'', intervals = normalizeIntervals [0, 5, 10], priority = 22, allowOmit5th = False\<rparr>,
     \<lparr>name = ''quartal4'', intervals = normalizeIntervals [0, 5, 10, 15], priority = 23, allowOmit5th = False\<rparr>,
     \<lparr>name = ''5'', intervals = [0, 7], priority = 20, allowOmit5th = False\<rparr>]"

section \<open>The main analysis function\<close>

record Match =
  pattern :: ChordPattern
  root :: int
  score :: int
  isRootless :: bool
  isExact :: bool

text \<open>
  The body of the inner loop over the catalog for a sounded candidate root: at most one
  match is pushed for a pattern (each of the first two cases ends in \<^verbatim>\<open>continue\<close>).
\<close>

definition rootedMatches :: "int list \<Rightarrow> int \<Rightarrow> ChordPattern \<Rightarrow> Match list" where
  "rootedMatches ivs potentialRoot p =
    (if length (ChordPattern.intervals p) = length ivs \<and>
        list_all (\<lambda>i. i \<in> set ivs) (ChordPattern.intervals p)
     then [\<lparr>pattern = p, root = potentialRoot, score = priority p * 100 + 1000,
            isRootless = False, isExact = True\<rparr>]
     else if list_all (\<lambda>i. i \<in> set ivs) (ChordPattern.intervals p)
     then
       (let extraIntervals = filter (\<lambda>i. i \<notin> set (ChordPattern.intervals p)) ivs;
            penalty = calculateExtraNotesPenalty extraIntervals (ChordPattern.intervals p)
        in [\<lparr>pattern = p, root = potentialRoot, score = priority p * 100 - penalty,
               isRootless = False, isExact = False\<rparr>])
     else if allowOmit5th p \<and> 7 \<in> set (ChordPattern.intervals p)
     then
       (let patternWithout5th = filter (\<lambda>i. i \<noteq> 7) (ChordPattern.intervals p)
        in if list_all (\<lambda>i. i \<in> set ivs) patternWithout5th \<and> 7 \<notin> set ivs
           then
             (let extraIntervals =
                    filter (\<lambda>i. i \<notin> set (ChordPattern.intervals p) \<and> i \<noteq> 7) ivs;
                  penalty = calculateExtraNotesPenalty extraIntervals (ChordPattern.intervals p)
              in [\<lparr>pattern = p, root = potentialRoot, score = priority p * 100 - 15 - penalty,
                     isRootless = False, isExact = False\<rparr>])
           else [])
     else [])"

text \<open>
  The body of the inner loop for an implied root that is not sounded: up to two matches
  are pushed for a pattern.
\<close>

definition rootlessMatches :: "int list \<Rightarrow> int \<Rightarrow> ChordPattern \<Rightarrow> Match list" where
  "rootlessMatches ivs potentialRoot p =
    (if length (ChordPattern.intervals p) < 4 then []
     else if 0 \<notin> set (ChordPattern.intervals p) then []
     else
       (let patternWithoutRoot = filter (\<lambda>i. i \<noteq> 0) (ChordPattern.intervals p);
            full =
              (if list_all (\<lambda>i. i \<in> set ivs) patternWithoutRoot \<and>
                  length patternWithoutRoot \<ge> 3
               then
                 (let extraIntervals = filter (\<lambda>i. i \<notin> set patternWithoutRoot) ivs;
                      penalty =
                        calculateExtraNotesPenalty extraIntervals (ChordPattern.intervals p)
                  in [\<lparr>pattern = p, root = potentialRoot,
                         score = priority p * 80 - 50 - penalty,
                         isRootless = True, isExact = False\<rparr>])
               else []);
            omitted =
              (if allowOmit5th p then
                 (let patternWithoutRootAnd5th = filter (\<lambda>i. i \<noteq> 7) patternWithoutRoot
                  in if list_all (\<lambda>i. i \<in> set ivs) patternWithoutRootAnd5th \<and>
                        7 \<notin> set ivs \<and> length patternWithoutRootAnd5th \<ge> 2
                     then
                       (let extraIntervals =
                              filter (\<lambda>i. i \<notin> set patternWithoutRootAnd5th) ivs;
                            penalty =
                              calculateExtraNotesPenalty extraIntervals
                                (ChordPattern.intervals p)
                        in [\<lparr>pattern = p, root = potentialRoot,
                               score = priority p * 70 - 80 - penalty,
                               isRootless = True, isExact = False\<rparr>])
                     else [])
               else [])
        in full @ omitted))"

text \<open>The intervals of the sounded pitch classes above a candidate root, sorted.\<close>

definition intervalsFrom :: "int list \<Rightarrow> int \<Rightarrow> int list" where
  "intervalsFrom uniquePitchClasses potentialRoot =
    sort (map (\<lambda>n. js_rem (n - potentialRoot + 12) 12) uniquePitchClasses)"

text \<open>
  The two outer loops: every sounded pitch class as root, then the roots 0 to 11 that are
  not sounded. The matches are appended in this order.
\<close>

definition generateMatches :: "int list \<Rightarrow> Match list" where
  "generateMatches uniquePitchClasses =
    concat (map (\<lambda>potentialRoot.
                   concat (map (rootedMatches (intervalsFrom uniquePitchClasses potentialRoot)
                                  potentialRoot) CHORD_PATTERNS))
              uniquePitchClasses)
    @ concat (map (\<lambda>potentialRoot.
                     if potentialRoot \<in> set uniquePitchClasses then []
                     else concat (map (rootlessMatches
                                         (intervalsFrom uniquePitchClasses potentialRoot)
                                         potentialRoot) CHORD_PATTERNS))
                [0..11])"

text \<open>A copy of a match whose pattern is a copy with another name.\<close>

definition rename :: "Match \<Rightarrow> string \<Rightarrow> Match" where
  "rename best newName = best\<lparr>pattern := (pattern best)\<lparr>name := newName\<rparr>\<rparr>"

text \<open>The sharp-nine against flat-three step on the selected match.\<close>

definition disambiguateSharp9 ::
    "Match list \<Rightarrow> TensionDisambiguation \<Rightarrow> bool \<Rightarrow> bool \<Rightarrow> Match \<Rightarrow> Match" where
  "disambiguateSharp9 matches tensionInfo hasMin3 hasMaj3 best =
    (let bestName = name (pattern best) in
     if hasMin3 \<and> hasMaj3 then
       (if interval3IsSharp9 tensionInfo then
          (let sharp9Match =
                 find (\<lambda>m. str_includes (name (pattern m)) ''#9'' \<and>
                            Match.root m = Match.root best \<and>
                            score m > score best - 150) matches
           in if sharp9Match \<noteq> None \<and> \<not> str_includes bestName ''#9''
              then the sharp9Match
              else if \<not> str_includes bestName ''#9'' \<and> \<not> str_includes bestName ''m''
              then
                (if bestName = [] \<or> startsWith bestName ''add'' \<or>
                    startsWith bestName ''Maj'' \<or> bestName = ''7''
                 then
                   (let newName =
                          (if bestName = [] then ''add#9''
                           else if \<not> str_includes bestName ''#9'' then bestName @ ''(#9)''
                           else bestName)
                    in rename best newName)
                 else best)
              else best)
        else
          (if str_includes bestName ''#9'' then
             (if \<not> str_includes bestName ''7'' then
                (case find (\<lambda>m. (name (pattern m) = ''(add b3)'' \<or>
                                   name (pattern m) = ''m(add 3)'') \<and>
                                  Match.root m = Match.root best) matches of
                   Some clusterMatch \<Rightarrow> clusterMatch
                 | None \<Rightarrow>
                     (let newName0 =
                            replace (replace (replace bestName ''#9'' ''b3'') ''add'' ''(add '')
                              ''madd'' ''m(add '';
                          newName =
                            (if str_includes newName0 ''(add '' \<and> \<not> endsWith newName0 '')''
                             then newName0 @ '')'' else newName0)
                      in rename best newName))
              else rename best (replace bestName ''#9'' ''(add b3)''))
           else best))
     else best)"

text \<open>The sharp-eleven against flat-five step.\<close>

definition disambiguateSharp11 ::
    "Match list \<Rightarrow> TensionDisambiguation \<Rightarrow> bool \<Rightarrow> bool \<Rightarrow> Match \<Rightarrow> Match" where
  "disambiguateSharp11 matches tensionInfo hasTritone hasNatural5 best =
    (let bestName = name (pattern best) in
     if hasTritone then
       (if interval6IsSharp11 tensionInfo then
          (let sharp11Match =
                 find (\<lambda>m. str_includes (name (pattern m)) ''#11'' \<and>
                            Match.root m = Match.root best \<and>
                            score m > score best - 150) matches
           in if sharp11Match \<noteq> None \<and> \<not> str_includes bestName ''#11''
              then the sharp11Match
              else if str_includes bestName ''b5''
              then rename best (replace bestName ''b5'' ''#11'')
              else if bestName = ''(b5)''
              then
                (case find (\<lambda>m. name (pattern m) = ''(#11)'' \<and>
                                  Match.root m = Match.root best) matches of
                   Some sharp11Fragment \<Rightarrow> sharp11Fragment
                 | None \<Rightarrow> best)
              else best)
        else
          (if bestName = ''(#11)'' then
             (case find (\<lambda>m. name (pattern m) = ''(b5)'' \<and>
                               Match.root m = Match.root best) matches of
                Some b5Fragment \<Rightarrow> b5Fragment
              | None \<Rightarrow> rename best ''(b5)'')
           else if str_includes bestName ''#11'' \<and> \<not> hasNatural5 then
             (case find (\<lambda>m. str_includes (name (pattern m)) ''b5'' \<and>
                               Match.root m = Match.root best \<and>
                               score m > score best - 150) matches of
                Some b5Match \<Rightarrow> b5Match
              | None \<Rightarrow> rename best (replace bestName ''#11'' ''b5''))
           else best))
     else best)"

text \<open>The sharp-five against flat-thirteen step.\<close>

definition disambiguateB13 :: "Match list \<Rightarrow> bool \<Rightarrow> bool \<Rightarrow> bool \<Rightarrow> Match \<Rightarrow> Match" where
  "disambiguateB13 matches hasPitchClass8 hasNatural5 has7th best =
    (let bestName = name (pattern best) in
     if hasPitchClass8 \<and> hasNatural5 \<and> has7th then
       (if str_includes bestName ''#5'' \<and> \<not> str_includes bestName ''aug'' then
          (case find (\<lambda>m. str_includes (name (pattern m)) ''b13'' \<and>
                            Match.root m = Match.root best \<and>
                            score m > score best - 150) matches of
             Some b13Match \<Rightarrow> b13Match
           | None \<Rightarrow> best)
        else best)
     else best)"

text \<open>
  The result. The two optional fields are absent from the fallback result that is
  returned when no pattern matches.
\<close>

record ChordAnalysis =
  root :: string
  quality :: string
  bass :: string
  display :: string
  intervals :: "int list"
  detectedRootPitchClass :: int
  isRootless :: "bool option"
  actualIntervals :: "int list option"

text \<open>Spelling every note of a list; the first failing call ends the map.\<close>

fun spellAll :: "int list \<Rightarrow> int \<Rightarrow> error + string list" where
  "spellAll [] r = Inr []"
| "spellAll (n # ns) r =
     (case getChordToneSpelling (js_rem n 12) r of
        Inl e \<Rightarrow> Inl e
      | Inr s \<Rightarrow> (case spellAll ns r of Inl e \<Rightarrow> Inl e | Inr ss \<Rightarrow> Inr (s # ss)))"

definition uniquePitchClassesOf :: "int list \<Rightarrow> int list" where
  "uniquePitchClassesOf sortedNotes = sort (remdups (map (\<lambda>n. js_rem n 12) sortedNotes))"

text \<open>
  The matches after \<^verbatim>\<open>matches.sort((a, b) => b.score - a.score)\<close>: the sort is stable
  and descending in the score.
\<close>

definition sortMatches :: "Match list \<Rightarrow> Match list" where
  "sortMatches matches = sort_key (\<lambda>m. - score m) matches"

text \<open>The result for no match at all: the notes spelled from the bass.\<close>

definition fallbackAnalysis :: "int list \<Rightarrow> int list \<Rightarrow> int \<Rightarrow> error + ChordAnalysis option" where
  "fallbackAnalysis sortedNotes uniquePitchClasses bassPitchClass =
    (case getRootSpelling bassPitchClass (Some uniquePitchClasses) of
       Inl e \<Rightarrow> Inl e
     | Inr bassRootName \<Rightarrow>
         (case spellAll sortedNotes bassPitchClass of
            Inl e \<Rightarrow> Inl e
          | Inr tones \<Rightarrow>
              Inr (Some \<lparr>root = bassRootName, quality = [], bass = bassRootName,
                         display = join tones '' '',
                         intervals =
                           sort (map (\<lambda>n. js_rem (n - bassPitchClass + 12) 12)
                                   uniquePitchClasses),
                         detectedRootPitchClass = bassPitchClass,
                         isRootless = None, actualIntervals = None\<rparr>)))"

text \<open>
  The three renaming steps in their order. The chord context is read from the root of the
  first selected match, before any step.
\<close>

definition refineBest :: "Match list \<Rightarrow> int list \<Rightarrow> int list \<Rightarrow> Match \<Rightarrow> Match" where
  "refineBest matches sortedNotes uniquePitchClasses best =
    (let actualIntervals = calculateActualIntervals sortedNotes (Match.root best);
         candidateIntervals = map (\<lambda>n. js_rem (n - Match.root best + 12) 12) uniquePitchClasses;
         hasMaj3 = (4 \<in> set candidateIntervals);
         hasMin3 = (3 \<in> set candidateIntervals);
         hasMaj7 = (11 \<in> set candidateIntervals);
         hasDom7 = (10 \<in> set candidateIntervals);
         has7th = (hasMaj7 \<or> hasDom7);
         hasTritone = (6 \<in> set candidateIntervals);
         hasNatural5 = (7 \<in> set candidateIntervals);
         hasPitchClass8 = (8 \<in> set candidateIntervals);
         tensionInfo =
           disambiguateTensions actualIntervals (Match.root best) hasMaj3 hasMin3 has7th hasNatural5;
         best1 = disambiguateSharp9 matches tensionInfo hasMin3 hasMaj3 best;
         best2 = disambiguateSharp11 matches tensionInfo hasTritone hasNatural5 best1
     in disambiguateB13 matches hasPitchClass8 hasNatural5 has7th best2)"

text \<open>The assembly of the result from the refined match.\<close>

definition assemble ::
    "int list \<Rightarrow> int list \<Rightarrow> int \<Rightarrow> Match \<Rightarrow> Match \<Rightarrow> error + ChordAnalysis option" where
  "assemble sortedNotes uniquePitchClasses bassPitchClass best0 best =
    (case getRootSpelling (Match.root best) (Some uniquePitchClasses) of
       Inl e \<Rightarrow> Inl e
     | Inr rootName \<Rightarrow>
         (case getChordToneSpelling bassPitchClass (Match.root best) of
            Inl e \<Rightarrow> Inl e
          | Inr bassName \<Rightarrow>
              (let isInversion = (Match.root best \<noteq> bassPitchClass \<and> \<not> Match.isRootless best);
                   displayName =
                     rootName @ name (pattern best)
                       @ (if Match.isRootless best then '' (rootless)'' else [])
                       @ (if isInversion then ''/'' @ bassName else []);
                   actualIntervalsArray =
                     map actualInterval (calculateActualIntervals sortedNotes (Match.root best0))
               in Inr (Some \<lparr>root = rootName, quality = name (pattern best), bass = bassName,
                              display = displayName,
                              intervals = ChordPattern.intervals (pattern best),
                              detectedRootPitchClass = Match.root best,
                              isRootless = Some (Match.isRootless best),
                              actualIntervals = Some actualIntervalsArray\<rparr>))))"

text \<open>
  \<^verbatim>\<open>analyzeChord(activeNotes)\<close>: \<open>Inr None\<close> is the value \<^verbatim>\<open>null\<close>, \<open>Inl\<close> a thrown
  exception.
\<close>

definition analyzeChord :: "int list \<Rightarrow> error + ChordAnalysis option" where
  "analyzeChord activeNotes =
    (if length activeNotes < 1 then Inr None
     else
       (let sortedNotes = sort activeNotes;
            bassMidi = sortedNotes ! 0;
            bassPitchClass = js_rem bassMidi 12;
            uniquePitchClasses = uniquePitchClassesOf sortedNotes;
            matches = generateMatches uniquePitchClasses
        in if length matches = 0
           then fallbackAnalysis sortedNotes uniquePitchClasses bassPitchClass
           else
             (let sortedMatches = sortMatches matches;
                  best0 = sortedMatches ! 0;
                  best = refineBest sortedMatches sortedNotes uniquePitchClasses best0
              in assemble sortedNotes uniquePitchClasses bassPitchClass best0 best)))"

section \<open>The copy of the analysis in the monolithic application file\<close>

text \<open>
  The application file defines its own \<^verbatim>\<open>analyzeChord\<close>, together with its own copies of
  the spelling table, the spelling functions, the interval calculations, the pattern
  catalog and the penalty. They are embedded here under the prefix \<open>inline_\<close>, in the
  order of the definitions above; the records of the results and the string and number
  primitives are shared. In that file the set of pitch classes is spread into an array
  (\<^verbatim>\<open>[...new Set(...)]\<close>) where the library calls \<^verbatim>\<open>Array.from\<close>. A parameter whose
  name is by now the name of a record field is renamed (\<open>tonePitchClass\<close>,
  \<open>actualIntervalInfos\<close>).
\<close>

definition inline_ROOT_SPELLING :: "int \<Rightarrow> RootSpelling option" where
  "inline_ROOT_SPELLING = map_of
    [(0,  \<lparr>useFlat = False, scale = [''C'', ''Db'', ''D'', ''Eb'', ''E'', ''F'', ''F#'', ''G'', ''Ab'', ''A'', ''Bb'', ''B'']\<rparr>),
     (1,  \<lparr>useFlat = False, scale = [''C#'', ''D'', ''D#'', ''E'', ''E#'', ''F#'', ''G'', ''G#'', ''A'', ''A#'', ''B'', ''B#'']\<rparr>),
     (2,  \<lparr>useFlat = False, scale = [''D'', ''Eb'', ''E'', ''F'', ''F#'', ''G'', ''Ab'', ''A'', ''Bb'', ''B'', ''C'', ''C#'']\<rparr>),
     (3,  \<lparr>useFlat = True,  scale = [''Eb'', ''Fb'', ''F'', ''Gb'', ''G'', ''Ab'', ''A'', ''Bb'', ''Cb'', ''C'', ''Db'', ''D'']\<rparr>),
     (4,  \<lparr>useFlat = False, scale = [''E'', ''F'', ''F#'', ''G'', ''G#'', ''A'', ''Bb'', ''B'', ''C'', ''C#'', ''D'', ''D#'']\<rparr>),
     (5,  \<lparr>useFlat = True,  scale = [''F'', ''Gb'', ''G'', ''Ab'', ''A'', ''Bb'', ''B'', ''C'', ''Db'', ''D'', ''Eb'', ''E'']\<rparr>),
     (6,  \<lparr>useFlat = False, scale = [''F#'', ''G'', ''G#'', ''A'', ''A#'', ''B'', ''C'', ''C#'', ''D'', ''D#'', ''E'', ''E#'']\<rparr>),
     (7,  \<lparr>useFlat = False, scale = [''G'', ''Ab'', ''A'', ''Bb'', ''B'', ''C'', ''Db'', ''D'', ''Eb'', ''E'', ''F'', ''F#'']\<rparr>),
     (8,  \<lparr>useFlat = True,  scale = [''Ab'', ''A'', ''Bb'', ''Cb'', ''C'', ''Db'', ''D'', ''Eb'', ''Fb'', ''F'', ''Gb'', ''G'']\<rparr>),
     (9,  \<lparr>useFlat = False, scale = [''A'', ''Bb'', ''B'', ''C'', ''C#'', ''D'', ''Eb'', ''E'', ''F'', ''F#'', ''G'', ''G#'']\<rparr>),
     (10, \<lparr>useFlat = True,  scale = [''Bb'', ''Cb'', ''C'', ''Db'', ''D'', ''Eb'', ''Fb'', ''F'', ''Gb'', ''G'', ''Ab'', ''A'']\<rparr>),
     (11, \<lparr>useFlat = False, scale = [''B'', ''C'', ''C#'', ''D'', ''D#'', ''E'', ''F'', ''F#'', ''G'', ''G#'', ''A'', ''A#'']\<rparr>)]"

definition inline_getRootSpelling :: "int \<Rightarrow> int list option \<Rightarrow> error + string" where
  "inline_getRootSpelling rootPitchClass bassContext =
    (let ctx = (case bassContext of None \<Rightarrow> [] | Some c \<Rightarrow> c);
         hasSharpIndicators =
           (6 \<in> set ctx \<or> 1 \<in> set ctx \<or> 8 \<in> set ctx \<or> 4 \<in> set ctx \<or> 11 \<in> set ctx);
         hasFlatIndicators = (10 \<in> set ctx \<or> 3 \<in> set ctx \<or> 5 \<in> set ctx)
     in
       if rootPitchClass = 1 then
         (if hasFlatIndicators \<and> \<not> hasSharpIndicators then Inr ''Db'' else Inr ''C#'')
       else if rootPitchClass = 3 then
         (if hasSharpIndicators \<and> \<not> hasFlatIndicators \<and>
             (4 \<in> set ctx \<or> 11 \<in> set ctx \<or> 6 \<in> set ctx)
          then Inr ''D#'' else Inr ''Eb'')
       else if rootPitchClass = 6 then
         (if hasFlatIndicators \<and> (1 \<in> set ctx \<or> 8 \<in> set ctx) \<and>
             4 \<notin> set ctx \<and> 11 \<notin> set ctx
          then Inr ''Gb'' else Inr ''F#'')
       else if rootPitchClass = 8 then
         (if hasSharpIndicators \<and> \<not> hasFlatIndicators \<and>
             (4 \<in> set ctx \<or> 9 \<in> set ctx \<or> 11 \<in> set ctx)
          then Inr ''G#'' else Inr ''Ab'')
       else if rootPitchClass = 10 then
         (if hasSharpIndicators \<and> \<not> hasFlatIndicators \<and>
             (11 \<in> set ctx \<or> 6 \<in> set ctx)
          then Inr ''A#'' else Inr ''Bb'')
       else
         (case inline_ROOT_SPELLING rootPitchClass of
            None \<Rightarrow> Inl TypeError
          | Some rs \<Rightarrow> Inr (scale rs ! 0)))"

definition inline_getChordToneSpelling :: "int \<Rightarrow> int \<Rightarrow> error + string" where
  "inline_getChordToneSpelling tonePitchClass rootPitchClass =
    (let interval = js_rem (js_rem (tonePitchClass - rootPitchClass) 12 + 12) 12
     in case inline_ROOT_SPELLING rootPitchClass of
          None \<Rightarrow> Inl TypeError
        | Some rs \<Rightarrow> Inr (scale rs ! nat interval))"

definition inline_normalizeIntervals :: "int list \<Rightarrow> int list" where
  "inline_normalizeIntervals ivs = sort (remdups (map (\<lambda>i. js_rem (js_rem i 12 + 12) 12) ivs))"

definition inline_calculateActualIntervals :: "int list \<Rightarrow> int \<Rightarrow> ActualIntervalInfo list" where
  "inline_calculateActualIntervals sortedMidiNotes rootPitchClass =
    (case sortedMidiNotes of
       [] \<Rightarrow> []
     | lowestNote # _ \<Rightarrow>
         (let rootInstances = filter (\<lambda>n. js_rem n 12 = rootPitchClass) sortedMidiNotes;
              rootMidi =
                (case rootInstances of
                   r # rs \<Rightarrow> Math_min r rs
                 | [] \<Rightarrow>
                     (let lowestPitchClass = js_rem lowestNote 12;
                          intervalFromRoot =
                            js_rem (js_rem (lowestPitchClass - rootPitchClass) 12 + 12) 12
                      in lowestNote - intervalFromRoot))
          in map (\<lambda>m. \<lparr>pitchClass = js_rem m 12, actualInterval = m - rootMidi, midi = m\<rparr>)
               sortedMidiNotes))"

definition inline_getActualIntervalForPitchClass ::
    "ActualIntervalInfo list \<Rightarrow> int \<Rightarrow> int \<Rightarrow> int" where
  "inline_getActualIntervalForPitchClass actualIntervalInfos targetPitchClass rootPitchClass =
    (let expectedMod12 = js_rem (js_rem (targetPitchClass - rootPitchClass) 12 + 12) 12;
         matches = filter (\<lambda>info. pitchClass info = targetPitchClass) actualIntervalInfos
     in case matches of
          [] \<Rightarrow> expectedMod12
        | m # ms \<Rightarrow>
            (case find (\<lambda>m. actualInterval m > 12) matches of
               Some compoundMatch \<Rightarrow> actualInterval compoundMatch
             | None \<Rightarrow> Math_min (actualInterval m) (map actualInterval ms)))"

definition inline_disambiguateTensions ::
    "ActualIntervalInfo list \<Rightarrow> int \<Rightarrow> bool \<Rightarrow> bool \<Rightarrow> bool \<Rightarrow> bool \<Rightarrow> TensionDisambiguation" where
  "inline_disambiguateTensions actualIntervalInfos rootPitchClass hasMaj3 hasMin3 has7th hasPerfect5 =
    (let pitchClass3 = js_rem (rootPitchClass + 3) 12;
         interval3Actual =
           inline_getActualIntervalForPitchClass actualIntervalInfos pitchClass3 rootPitchClass;
         sharp9 =
           (if interval3Actual \<ge> 14 then True
            else if hasMaj3 then
              (let maj3PitchClass = js_rem (rootPitchClass + 4) 12;
                   maj3Instances = filter (\<lambda>i. pitchClass i = maj3PitchClass) actualIntervalInfos;
                   pc3Instances = filter (\<lambda>i. pitchClass i = pitchClass3) actualIntervalInfos
               in case (map midi maj3Instances, map midi pc3Instances) of
                    (a # as, b # bs) \<Rightarrow>
                      (let lowestMaj3 = Math_min a as; lowestPc3 = Math_min b bs
                       in lowestPc3 > lowestMaj3)
                  | (_, b # bs) \<Rightarrow> has7th
                  | (_, []) \<Rightarrow> False)
            else False);
         pitchClass6 = js_rem (rootPitchClass + 6) 12;
         interval6Actual =
           inline_getActualIntervalForPitchClass actualIntervalInfos pitchClass6 rootPitchClass;
         sharp11 =
           (if interval6Actual \<ge> 17 then True
            else if hasPerfect5 \<and> hasMaj3 then True
            else if has7th \<and> hasMaj3 \<and> \<not> hasPerfect5 then
              list_ex (\<lambda>i. js_rem (pitchClass i - rootPitchClass + 12) 12 = 11) actualIntervalInfos
            else False);
         pitchClass8 = js_rem (rootPitchClass + 8) 12;
         interval8Actual =
           inline_getActualIntervalForPitchClass actualIntervalInfos pitchClass8 rootPitchClass;
         sharp5 =
           (if interval8Actual \<ge> 19 then False
            else if hasPerfect5 then False
            else if \<not> hasPerfect5 \<and> \<not> has7th then True
            else False)
     in \<lparr>interval3IsSharp9 = sharp9, interval6IsSharp11 = sharp11, interval8IsSharp5 = sharp5\<rparr>)"

definition inline_COMMON_EXTENSIONS :: "int set" where
  "inline_COMMON_EXTENSIONS = {2, 5, 9}"

definition inline_calculateExtraNotesPenalty :: "int list \<Rightarrow> int list \<Rightarrow> int" where
  "inline_calculateExtraNotesPenalty extraIntervals patternIntervals =
    (let patternHas7th = list_ex (\<lambda>i. i = 10 \<or> i = 11) patternIntervals
     in fold (\<lambda>interval penalty.
               if interval \<in> inline_COMMON_EXTENSIONS
               then penalty + (if patternHas7th then 3 else 6)
               else penalty + 18)
          extraIntervals 0)"

definition inline_CHORD_PATTERNS :: "ChordPattern list" where
  "inline_CHORD_PATTERNS =
    [\<lparr>name = ''Maj13'', intervals = inline_normalizeIntervals [0, 4, 7, 11, 14, 21], priority = 65, allowOmit5th = True\<rparr>,
     \<lparr>name = ''13'', intervals = inline_normalizeIntervals [0, 4, 7, 10, 14, 21], priority = 65, allowOmit5th = True\<rparr>,
     \<lparr>name = ''min13'', intervals = inline_normalizeIntervals [0, 3, 7, 10, 14, 21], priority = 65, allowOmit5th = True\<rparr>,
     \<lparr>name = ''13sus4'', intervals = inline_normalizeIntervals [0, 5, 7, 10, 14, 21], priority = 64, allowOmit5th = True\<rparr>,
     \<lparr>name = ''Maj9#11'', intervals = inline_normalizeIntervals [0, 4, 7, 11, 14, 18], priority = 62, allowOmit5th = True\<rparr>,
     \<lparr>name = ''9#11'', intervals = inline_normalizeIntervals [0, 4, 7, 10, 14, 18], priority = 62, allowOmit5th = True\<rparr>,
     \<lparr>name = ''Maj11'', intervals = inline_normalizeIntervals [0, 4, 7, 11, 14, 17], priority = 60, allowOmit5th = True\<rparr>,
     \<lparr>name = ''11'', intervals = inline_normalizeIntervals [0, 4, 7, 10, 14, 17], priority = 60, allowOmit5th = True\<rparr>,
     \<lparr>name = ''min11'', intervals = inline_normalizeIntervals [0, 3, 7, 10, 14, 17], priority = 60, allowOmit5th = True\<rparr>,
     \<lparr>name = ''Maj9'', intervals = inline_normalizeIntervals [0, 4, 7, 11, 14], priority = 55, allowOmit5th = True\<rparr>,
     \<lparr>name = ''9'', intervals = inline_normalizeIntervals [0, 4, 7, 10, 14], priority = 55, allowOmit5th = True\<rparr>,
     \<lparr>name = ''min9'', intervals = inline_normalizeIntervals [0, 3, 7, 10, 14], priority = 55, allowOmit5th = True\<rparr>,
     \<lparr>name = ''minMaj9'', intervals = inline_normalizeIntervals [0, 3, 7, 11, 14], priority = 55, allowOmit5th = True\<rparr>,
     \<lparr>name = ''9sus4'', intervals = inline_normalizeIntervals [0, 5, 7, 10, 14], priority = 54, allowOmit5th = True\<rparr>,
     \<lparr>name = ''13b9'', intervals = inline_normalizeIntervals [0, 4, 7, 10, 13, 21], priority = 66, allowOmit5th = True\<rparr>,
     \<lparr>name = ''13#9'', intervals = inline_normalizeIntervals [0, 4, 7, 10, 15, 21], priority = 66, allowOmit5th = True\<rparr>,
     \<lparr>name = ''7b9#11'', intervals = inline_normalizeIntervals [0, 4, 7, 10, 13, 18], priority = 58, allowOmit5th = True\<rparr>,
     \<lparr>name = ''7#9#11'', intervals = inline_normalizeIntervals [0, 4, 7, 10, 15, 18], priority = 58, allowOmit5th = True\<rparr>,
     \<lparr>name = ''7b9b13'', intervals = inline_normalizeIntervals [0, 4, 7, 10, 13, 20], priority = 58, allowOmit5th = False\<rparr>,
     \<lparr>name = ''7#9b13'', intervals = inline_normalizeIntervals [0, 4, 7, 10, 15, 20], priority = 58, allowOmit5th = False\<rparr>,
     \<lparr>name = ''7alt'', intervals = inline_normalizeIntervals [0, 4, 6, 10, 13, 15], priority = 59, allowOmit5th = False\<rparr>,
     \<lparr>name = ''Maj7#9'', intervals = inline_normalizeIntervals [0, 4, 7, 11, 15], priority = 56, allowOmit5th = True\<rparr>,
     \<lparr>name = ''7#9'', intervals = inline_normalizeIntervals [0, 4, 7, 10, 15], priority = 54, allowOmit5th = True\<rparr>,
     \<lparr>name = ''7b9'', intervals = inline_normalizeIntervals [0, 4, 7, 10, 13], priority = 54, allowOmit5th = True\<rparr>,
     \<lparr>name = ''7#5#9'', intervals = inline_normalizeIntervals [0, 4, 8, 10, 15], priority = 56, allowOmit5th = False\<rparr>,
     \<lparr>name = ''7#5b9'', intervals = inline_normalizeIntervals [0, 4, 8, 10, 13], priority = 56, allowOmit5th = False\<rparr>,
     \<lparr>name = ''7b5b9'', intervals = inline_normalizeIntervals [0, 4, 6, 10, 13], priority = 56, allowOmit5th = False\<rparr>,
     \<lparr>name = ''7b5#9'', intervals = inline_normalizeIntervals [0, 4, 6, 10, 15], priority = 56, allowOmit5th = False\<rparr>,
     \<lparr>name = ''7b13'', intervals = inline_normalizeIntervals [0, 4, 7, 10, 20], priority = 53, allowOmit5th = False\<rparr>,
     \<lparr>name = ''m9b5'', intervals = inline_normalizeIntervals [0, 3, 6, 10, 14], priority = 56, allowOmit5th = False\<rparr>,
     \<lparr>name = ''m11b5'', intervals = inline_normalizeIntervals [0, 3, 6, 10, 14, 17], priority = 58, allowOmit5th = False\<rparr>,
     \<lparr>name = ''m7b5(11)'', intervals = inline_normalizeIntervals [0, 3, 6, 10, 17], priority = 54, allowOmit5th = False\<rparr>,
     \<lparr>name = ''Maj7#11'', intervals = inline_normalizeIntervals [0, 4, 7, 11, 18], priority = 52, allowOmit5th = True\<rparr>,
     \<lparr>name = ''7#11'', intervals = inline_normalizeIntervals [0, 4, 7, 10, 18], priority = 52, allowOmit5th = True\<rparr>,
     \<lparr>name = ''6/9'', intervals = inline_normalizeIntervals [0, 4, 7, 9, 14], priority = 52, allowOmit5th = True\<rparr>,
     \<lparr>name = ''min6/9'', intervals = inline_normalizeIntervals [0, 3, 7, 9, 14], priority = 52, allowOmit5th = True\<rparr>,
     \<lparr>name = ''7sus4'', intervals = [0, 5, 7, 10], priority = 46, allowOmit5th = False\<rparr>,
     \<lparr>name = ''7sus2'', intervals = [0, 2, 7, 10], priority = 46, allowOmit5th = False\<rparr>,
     \<lparr>name = ''Maj7sus4'', intervals = [0, 5, 7, 11], priority = 46, allowOmit5th = False\<rparr>,
     \<lparr>name = ''Maj7sus2'', intervals = [0, 2, 7, 11], priority = 46, allowOmit5th = False\<rparr>,
     \<lparr>name = ''Maj7'', intervals = [0, 4, 7, 11], priority = 45, allowOmit5th = True\<rparr>,
     \<lparr>name = ''min7'', intervals = [0, 3, 7, 10], priority = 45, allowOmit5th = True\<rparr>,
     \<lparr>name = ''7'', intervals = [0, 4, 7, 10], priority = 45, allowOmit5th = True\<rparr>,
     \<lparr>name = ''dim7'', intervals = [0, 3, 6, 9], priority = 45, allowOmit5th = False\<rparr>,
     \<lparr>name = ''m7b5'', intervals = [0, 3, 6, 10], priority = 45, allowOmit5th = False\<rparr>,
     \<lparr>name = ''minMaj7'', intervals = [0, 3, 7, 11], priority = 45, allowOmit5th = True\<rparr>,
     \<lparr>name = ''Maj7#5'', intervals = [0, 4, 8, 11], priority = 46, allowOmit5th = False\<rparr>,
     \<lparr>name = ''7#5'', intervals = [0, 4, 8, 10], priority = 46, allowOmit5th = False\<rparr>,
     \<lparr>name = ''7b5'', intervals = [0, 4, 6, 10], priority = 46, allowOmit5th = False\<rparr>,
     \<lparr>name = ''6'', intervals = [0, 4, 7, 9], priority = 42, allowOmit5th = True\<rparr>,
     \<lparr>name = ''min6'', intervals = [0, 3, 7, 9], priority = 42, allowOmit5th = True\<rparr>,
     \<lparr>name = ''add9'', intervals = inline_normalizeIntervals [0, 4, 7, 14], priority = 40, allowOmit5th = True\<rparr>,
     \<lparr>name = ''madd9'', intervals = inline_normalizeIntervals [0, 3, 7, 14], priority = 40, allowOmit5th = True\<rparr>,
     \<lparr>name = ''add11'', intervals = inline_normalizeIntervals [0, 4, 7, 17], priority = 40, allowOmit5th = True\<rparr>,
     \<lparr>name = ''madd11'', intervals = inline_normalizeIntervals [0, 3, 7, 17], priority = 40, allowOmit5th = True\<rparr>,
     \<lparr>name = ''add#11'', intervals = inline_normalizeIntervals [0, 4, 7, 18], priority = 40, allowOmit5th = False\<rparr>,
     \<lparr>name = ''add#9'', intervals = inline_normalizeIntervals [0, 4, 7, 15], priority = 41, allowOmit5th = True\<rparr>,
     \<lparr>name = ''madd#9'', intervals = inline_normalizeIntervals [0, 3, 7, 15], priority = 41, allowOmit5th = True\<rparr>,
     \<lparr>name = ''(add b3)'', intervals = [0, 3, 4, 7], priority = 40, allowOmit5th = False\<rparr>,
     \<lparr>name = ''m(add 3)'', intervals = [0, 3, 4, 7], priority = 39, allowOmit5th = False\<rparr>,
     \<lparr>name = '''', intervals = [0, 4, 7], priority = 35, allowOmit5th = False\<rparr>,
     \<lparr>name = ''m'', intervals = [0, 3, 7], priority = 35, allowOmit5th = False\<rparr>,
     \<lparr>name = ''dim'', intervals = [0, 3, 6], priority = 35, allowOmit5th = False\<rparr>,
     \<lparr>name = ''aug'', intervals = [0, 4, 8], priority = 35, allowOmit5th = False\<rparr>,
     \<lparr>name = ''sus2'', intervals = [0, 2, 7], priority = 33, allowOmit5th = False\<rparr>,
     \<lparr>name = ''sus4'', intervals = [0, 5, 7], priority = 33, allowOmit5th = False\<rparr>,
     \<lparr>name = ''(#11)'', intervals = [0, 4, 6], priority = 34, allowOmit5th = False\<rparr>,
     \<lparr>name = ''(b5)'', intervals = [0, 4, 6], priority = 33, allowOmit5th = False\<rparr>,
     \<lparr>name = ''quartal'', intervals = inline_normalizeIntervals [0, 5, 10], priority = 22, allowOmit5th = False\<rparr>,
     \<lparr>name = ''quartal4'', intervals = inline_normalizeIntervals [0, 5, 10, 15], priority = 23, allowOmit5th = False\<rparr>,
     \<lparr>name = ''5'', intervals = [0, 7], priority = 20, allowOmit5th = False\<rparr>]"

definition inline_rootedMatches :: "int list \<Rightarrow> int \<Rightarrow> ChordPattern \<Rightarrow> Match list" where
  "inline_rootedMatches ivs potentialRoot p =
    (if length (ChordPattern.intervals p) = length ivs \<and>
        list_all (\<lambda>i. i \<in> set ivs) (ChordPattern.intervals p)
     then [\<lparr>pattern = p, root = potentialRoot, score = priority p * 100 + 1000,
            isRootless = False, isExact = True\<rparr>]
     else if list_all (\<lambda>i. i \<in> set ivs) (ChordPattern.intervals p)
     then
       (let extraIntervals = filter (\<lambda>i. i \<notin> set (ChordPattern.intervals p)) ivs;
            penalty = inline_calculateExtraNotesPenalty extraIntervals (ChordPattern.intervals p)
        in [\<lparr>pattern = p, root = potentialRoot, score = priority p * 100 - penalty,
               isRootless = False, isExact = False\<rparr>])
     else if allowOmit5th p \<and> 7 \<in> set (ChordPattern.intervals p)
     then
       (let patternWithout5th = filter (\<lambda>i. i \<noteq> 7) (ChordPattern.intervals p)
        in if list_all (\<lambda>i. i \<in> set ivs) patternWithout5th \<and> 7 \<notin> set ivs
           then
             (let extraIntervals =
                    filter (\<lambda>i. i \<notin> set (ChordPattern.intervals p) \<and> i \<noteq> 7) ivs;
                  penalty = inline_calculateExtraNotesPenalty extraIntervals (ChordPattern.intervals p)
              in [\<lparr>pattern = p, root = potentialRoot, score = priority p * 100 - 15 - penalty,
                     isRootless = False, isExact = False\<rparr>])
           else [])
     else [])"

definition inline_rootlessMatches :: "int list \<Rightarrow> int \<Rightarrow> ChordPattern \<Rightarrow> Match list" where
  "inline_rootlessMatches ivs potentialRoot p =
    (if length (ChordPattern.intervals p) < 4 then []
     else if 0 \<notin> set (ChordPattern.intervals p) then []
     else
       (let patternWithoutRoot = filter (\<lambda>i. i \<noteq> 0) (ChordPattern.intervals p);
            full =
              (if list_all (\<lambda>i. i \<in> set ivs) patternWithoutRoot \<and>
                  length patternWithoutRoot \<ge> 3
               then
                 (let extraIntervals = filter (\<lambda>i. i \<notin> set patternWithoutRoot) ivs;
                      penalty =
                        inline_calculateExtraNotesPenalty extraIntervals (ChordPattern.intervals p)
                  in [\<lparr>pattern = p, root = potentialRoot,
                         score = priority p * 80 - 50 - penalty,
                         isRootless = True, isExact = False\<rparr>])
               else []);
            omitted =
              (if allowOmit5th p then
                 (let patternWithoutRootAnd5th = filter (\<lambda>i. i \<noteq> 7) patternWithoutRoot
                  in if list_all (\<lambda>i. i \<in> set ivs) patternWithoutRootAnd5th \<and>
                        7 \<notin> set ivs \<and> length patternWithoutRootAnd5th \<ge> 2
                     then
                       (let extraIntervals =
                              filter (\<lambda>i. i \<notin> set patternWithoutRootAnd5th) ivs;
                            penalty =
                              inline_calculateExtraNotesPenalty extraIntervals
                                (ChordPattern.intervals p)
                        in [\<lparr>pattern = p, root = potentialRoot,
                               score = priority p * 70 - 80 - penalty,
                               isRootless = True, isExact = False\<rparr>])
                     else [])
               else [])
        in full @ omitted))"

definition inline_intervalsFrom :: "int list \<Rightarrow> int \<Rightarrow> int list" where
  "inline_intervalsFrom uniquePitchClasses potentialRoot =
    sort (map (\<lambda>n. js_rem (n - potentialRoot + 12) 12) uniquePitchClasses)"

definition inline_generateMatches :: "int list \<Rightarrow> Match list" where
  "inline_generateMatches uniquePitchClasses =
    concat (map (\<lambda>potentialRoot.
                   concat (map (inline_rootedMatches (inline_intervalsFrom uniquePitchClasses potentialRoot)
                                  potentialRoot) inline_CHORD_PATTERNS))
              uniquePitchClasses)
    @ concat (map (\<lambda>potentialRoot.
                     if potentialRoot \<in> set uniquePitchClasses then []
                     else concat (map (inline_rootlessMatches
                                         (inline_intervalsFrom uniquePitchClasses potentialRoot)
                                         potentialRoot) inline_CHORD_PATTERNS))
                [0..11])"

definition inline_disambiguateSharp9 ::
    "Match list \<Rightarrow> TensionDisambiguation \<Rightarrow> bool \<Rightarrow> bool \<Rightarrow> Match \<Rightarrow> Match" where
  "inline_disambiguateSharp9 matches tensionInfo hasMin3 hasMaj3 best =
    (let bestName = name (pattern best) in
     if hasMin3 \<and> hasMaj3 then
       (if interval3IsSharp9 tensionInfo then
          (let sharp9Match =
                 find (\<lambda>m. str_includes (name (pattern m)) ''#9'' \<and>
                            Match.root m = Match.root best \<and>
                            score m > score best - 150) matches
           in if sharp9Match \<noteq> None \<and> \<not> str_includes bestName ''#9''
              then the sharp9Match
              else if \<not> str_includes bestName ''#9'' \<and> \<not> str_includes bestName ''m''
              then
                (if bestName = [] \<or> startsWith bestName ''add'' \<or>
                    startsWith bestName ''Maj'' \<or> bestName = ''7''
                 then
                   (let newName =
                          (if bestName = [] then ''add#9''
                           else if \<not> str_includes bestName ''#9'' then bestName @ ''(#9)''
                           else bestName)
                    in rename best newName)
                 else best)
              else best)
        else
          (if str_includes bestName ''#9'' then
             (if \<not> str_includes bestName ''7'' then
                (case find (\<lambda>m. (name (pattern m) = ''(add b3)'' \<or>
                                   name (pattern m) = ''m(add 3)'') \<and>
                                  Match.root m = Match.root best) matches of
                   Some clusterMatch \<Rightarrow> clusterMatch
                 | None \<Rightarrow>
                     (let newName0 =
                            replace (replace (replace bestName ''#9'' ''b3'') ''add'' ''(add '')
                              ''madd'' ''m(add '';
                          newName =
                            (if str_includes newName0 ''(add '' \<and> \<not> endsWith newName0 '')''
                             then newName0 @ '')'' else newName0)
                      in rename best newName))
              else rename best (replace bestName ''#9'' ''(add b3)''))
           else best))
     else best)"

definition inline_disambiguateSharp11 ::
    "Match list \<Rightarrow> TensionDisambiguation \<Rightarrow> bool \<Rightarrow> bool \<Rightarrow> Match \<Rightarrow> Match" where
  "inline_disambiguateSharp11 matches tensionInfo hasTritone hasNatural5 best =
    (let bestName = name (pattern best) in
     if hasTritone then
       (if interval6IsSharp11 tensionInfo then
          (let sharp11Match =
                 find (\<lambda>m. str_includes (name (pattern m)) ''#11'' \<and>
                            Match.root m = Match.root best \<and>
                            score m > score best - 150) matches
           in if sharp11Match \<noteq> None \<and> \<not> str_includes bestName ''#11''
              then the sharp11Match
              else if str_includes bestName ''b5''
              then rename best (replace bestName ''b5'' ''#11'')
              else if bestName = ''(b5)''
              then
                (case find (\<lambda>m. name (pattern m) = ''(#11)'' \<and>
                                  Match.root m = Match.root best) matches of
                   Some sharp11Fragment \<Rightarrow> sharp11Fragment
                 | None \<Rightarrow> best)
              else best)
        else
          (if bestName = ''(#11)'' then
             (case find (\<lambda>m. name (pattern m) = ''(b5)'' \<and>
                               Match.root m = Match.root best) matches of
                Some b5Fragment \<Rightarrow> b5Fragment
              | None \<Rightarrow> rename best ''(b5)'')
           else if str_includes bestName ''#11'' \<and> \<not> hasNatural5 then
             (case find (\<lambda>m. str_includes (name (pattern m)) ''b5'' \<and>
                               Match.root m = Match.root best \<and>
                               score m > score best - 150) matches of
                Some b5Match \<Rightarrow> b5Match
              | None \<Rightarrow> rename best (replace bestName ''#11'' ''b5''))
           else best))
     else best)"

definition inline_disambiguateB13 :: "Match list \<Rightarrow> bool \<Rightarrow> bool \<Rightarrow> bool \<Rightarrow> Match \<Rightarrow> Match" where
  "inline_disambiguateB13 matches hasPitchClass8 hasNatural5 has7th best =
    (let bestName = name (pattern best) in
     if hasPitchClass8 \<and> hasNatural5 \<and> has7th then
       (if str_includes bestName ''#5'' \<and> \<not> str_includes bestName ''aug'' then
          (case find (\<lambda>m. str_includes (name (pattern m)) ''b13'' \<and>
                            Match.root m = Match.root best \<and>
                            score m > score best - 150) matches of
             Some b13Match \<Rightarrow> b13Match
           | None \<Rightarrow> best)
        else best)
     else best)"

fun inline_spellAll :: "int list \<Rightarrow> int \<Rightarrow> error + string list" where
  "inline_spellAll [] r = Inr []"
| "inline_spellAll (n # ns) r =
     (case inline_getChordToneSpelling (js_rem n 12) r of
        Inl e \<Rightarrow> Inl e
      | Inr s \<Rightarrow> (case inline_spellAll ns r of Inl e \<Rightarrow> Inl e | Inr ss \<Rightarrow> Inr (s # ss)))"

definition inline_uniquePitchClassesOf :: "int list \<Rightarrow> int list" where
  "inline_uniquePitchClassesOf sortedNotes = sort (remdups (map (\<lambda>n. js_rem n 12) sortedNotes))"

definition inline_sortMatches :: "Match list \<Rightarrow> Match list" where
  "inline_sortMatches matches = sort_key (\<lambda>m. - score m) matches"

definition inline_fallbackAnalysis :: "int list \<Rightarrow> int list \<Rightarrow> int \<Rightarrow> error + ChordAnalysis option" where
  "inline_fallbackAnalysis sortedNotes uniquePitchClasses bassPitchClass =
    (case inline_getRootSpelling bassPitchClass (Some uniquePitchClasses) of
       Inl e \<Rightarrow> Inl e
     | Inr bassRootName \<Rightarrow>
         (case inline_spellAll sortedNotes bassPitchClass of
            Inl e \<Rightarrow> Inl e
          | Inr tones \<Rightarrow>
              Inr (Some \<lparr>root = bassRootName, quality = [], bass = bassRootName,
                         display = join tones '' '',
                         intervals =
                           sort (map (\<lambda>n. js_rem (n - bassPitchClass + 12) 12)
                                   uniquePitchClasses),
                         detectedRootPitchClass = bassPitchClass,
                         isRootless = None, actualIntervals = None\<rparr>)))"

definition inline_refineBest :: "Match list \<Rightarrow> int list \<Rightarrow> int list \<Rightarrow> Match \<Rightarrow> Match" where
  "inline_refineBest matches sortedNotes uniquePitchClasses best =
    (let actualIntervals = inline_calculateActualIntervals sortedNotes (Match.root best);
         candidateIntervals = map (\<lambda>n. js_rem (n - Match.root best + 12) 12) uniquePitchClasses;
         hasMaj3 = (4 \<in> set candidateIntervals);
         hasMin3 = (3 \<in> set candidateIntervals);
         hasMaj7 = (11 \<in> set candidateIntervals);
         hasDom7 = (10 \<in> set candidateIntervals);
         has7th = (hasMaj7 \<or> hasDom7);
         hasTritone = (6 \<in> set candidateIntervals);
         hasNatural5 = (7 \<in> set candidateIntervals);
         hasPitchClass8 = (8 \<in> set candidateIntervals);
         tensionInfo =
           inline_disambiguateTensions actualIntervals (Match.root best) hasMaj3 hasMin3 has7th hasNatural5;
         best1 = inline_disambiguateSharp9 matches tensionInfo hasMin3 hasMaj3 best;
         best2 = inline_disambiguateSharp11 matches tensionInfo hasTritone hasNatural5 best1
     in inline_disambiguateB13 matches hasPitchClass8 hasNatural5 has7th best2)"

definition inline_assemble ::
    "int list \<Rightarrow> int list \<Rightarrow> int \<Rightarrow> Match \<Rightarrow> Match \<Rightarrow> error + ChordAnalysis option" where
  "inline_assemble sortedNotes uniquePitchClasses bassPitchClass best0 best =
    (case inline_getRootSpelling (Match.root best) (Some uniquePitchClasses) of
       Inl e \<Rightarrow> Inl e
     | Inr rootName \<Rightarrow>
         (case inline_getChordToneSpelling bassPitchClass (Match.root best) of
            Inl e \<Rightarrow> Inl e
          | Inr bassName \<Rightarrow>
              (let isInversion = (Match.root best \<noteq> bassPitchClass \<and> \<not> Match.isRootless best);
                   displayName =
                     rootName @ name (pattern best)
                       @ (if Match.isRootless best then '' (rootless)'' else [])
                       @ (if isInversion then ''/'' @ bassName else []);
                   actualIntervalsArray =
                     map actualInterval (inline_calculateActualIntervals sortedNotes (Match.root best0))
               in Inr (Some \<lparr>root = rootName, quality = name (pattern best), bass = bassName,
                              display = displayName,
                              intervals = ChordPattern.intervals (pattern best),
                              detectedRootPitchClass = Match.root best,
                              isRootless = Some (Match.isRootless best),
                              actualIntervals = Some actualIntervalsArray\<rparr>))))"

definition inline_analyzeChord :: "int list \<Rightarrow> error + ChordAnalysis option" where
  "inline_analyzeChord activeNotes =
    (if length activeNotes < 1 then Inr None
     else
       (let sortedNotes = sort activeNotes;
            bassMidi = sortedNotes ! 0;
            bassPitchClass = js_rem bassMidi 12;
            uniquePitchClasses = inline_uniquePitchClassesOf sortedNotes;
            matches = inline_generateMatches uniquePitchClasses
        in if length matches = 0
           then inline_fallbackAnalysis sortedNotes uniquePitchClasses bassPitchClass
           else
             (let sortedMatches = inline_sortMatches matches;
                  best0 = sortedMatches ! 0;
                  best = inline_refineBest sortedMatches sortedNotes uniquePitchClasses best0
              in inline_assemble sortedNotes uniquePitchClasses bassPitchClass best0 best)))"

section \<open>Properties\<close>

subsection \<open>The generated matches\<close>

lemma fold_penalty_nonneg:
  "0 \<le> acc \<Longrightarrow>
   0 \<le> fold (\<lambda>interval penalty.
              if interval \<in> COMMON_EXTENSIONS then penalty + (if h then 3 else 6)
              else penalty + (18::int)) ex acc"
  by (induction ex arbitrary: acc) auto

lemma penalty_nonneg: "0 \<le> calculateExtraNotesPenalty ex pis"
  unfolding calculateExtraNotesPenalty_def Let_def by (rule fold_penalty_nonneg) simp

lemma rootedMatches_props:
  assumes "m \<in> set (rootedMatches ivs r p)"
  shows "pattern m = p" and "Match.root m = r" and "\<not> Match.isRootless m"
    and "isExact m \<Longrightarrow> score m = priority p * 100 + 1000"
    and "\<not> isExact m \<Longrightarrow> score m \<le> priority p * 100"
  using assms penalty_nonneg[of "filter (\<lambda>i. i \<notin> set (ChordPattern.intervals p)) ivs" "ChordPattern.intervals p"]
    penalty_nonneg[of "filter (\<lambda>i. i \<notin> set (ChordPattern.intervals p) \<and> i \<noteq> 7) ivs" "ChordPattern.intervals p"]
  by (auto simp: rootedMatches_def Let_def split: if_splits)

lemma rootlessMatches_props:
  assumes "m \<in> set (rootlessMatches ivs r p)"
  shows "pattern m = p" and "Match.root m = r" and "Match.isRootless m"
    and "\<not> isExact m" and "0 \<le> priority p \<Longrightarrow> score m \<le> priority p * 80 - 50"
  using assms
    penalty_nonneg[of "filter (\<lambda>i. i \<notin> set (filter (\<lambda>i. i \<noteq> 0) (ChordPattern.intervals p))) ivs" "ChordPattern.intervals p"]
    penalty_nonneg[of "filter (\<lambda>i. i \<notin> set (filter (\<lambda>i. i \<noteq> 7) (filter (\<lambda>i. i \<noteq> 0) (ChordPattern.intervals p)))) ivs" "ChordPattern.intervals p"]
  by (auto simp: rootlessMatches_def Let_def split: if_splits)

lemma generateMatches_cases:
  assumes "m \<in> set (generateMatches u)"
  obtains (rooted) r p where "r \<in> set u" "p \<in> set CHORD_PATTERNS"
      "m \<in> set (rootedMatches (intervalsFrom u r) r p)"
  | (rootless) r p where "r \<notin> set u" "0 \<le> r" "r \<le> 11" "p \<in> set CHORD_PATTERNS"
      "m \<in> set (rootlessMatches (intervalsFrom u r) r p)"
  using assms unfolding generateMatches_def by (auto split: if_splits)

lemma priority_bounds:
  "p \<in> set CHORD_PATTERNS \<Longrightarrow> 20 \<le> priority p \<and> priority p \<le> 66"
  unfolding CHORD_PATTERNS_def by auto

subsection \<open>The refinement steps and the selection of the best match\<close>

lemma find_SomeD: "find P xs = Some x \<Longrightarrow> x \<in> set xs \<and> P x"
  by (auto simp: find_Some_iff)

lemma rename_fields [simp]:
  "Match.root (rename b nm) = Match.root b"
  "score (rename b nm) = score b"
  "Match.isRootless (rename b nm) = Match.isRootless b"
  "isExact (rename b nm) = isExact b"
  "ChordPattern.intervals (pattern (rename b nm)) = ChordPattern.intervals (pattern b)"
  "priority (pattern (rename b nm)) = priority (pattern b)"
  "allowOmit5th (pattern (rename b nm)) = allowOmit5th (pattern b)"
  "name (pattern (rename b nm)) = nm"
  by (simp_all add: rename_def)

lemma rename_rename [simp]: "rename (rename b n1) n2 = rename b n2"
  by (simp add: rename_def)

lemma rename_same [simp]: "rename b (name (pattern b)) = b"
  by (simp add: rename_def)

lemma disambiguateSharp9_cases:
  "(disambiguateSharp9 ms ti h3 hM3 b \<in> set ms \<and>
      Match.root (disambiguateSharp9 ms ti h3 hM3 b) = Match.root b) \<or>
   (\<exists>nm. disambiguateSharp9 ms ti h3 hM3 b = rename b nm)"
proof -
  define P where "P b' \<longleftrightarrow>
    (b' \<in> set ms \<and> Match.root b' = Match.root b) \<or> (\<exists>nm. b' = rename b nm)" for b'
  have keep: "P b" unfolding P_def by (intro disjI2 exI[of _ "name (pattern b)"]) simp
  have ren: "P (rename b nm)" for nm unfolding P_def by blast
  have fnd: "P x" if "find Q ms = Some x" "\<And>m. Q m \<Longrightarrow> Match.root m = Match.root b" for Q x
    using find_SomeD[OF that(1)] that(2) unfolding P_def by blast
  have "P (disambiguateSharp9 ms ti h3 hM3 b)"
    unfolding disambiguateSharp9_def Let_def
    by (auto split: option.split intro!: keep ren elim: fnd)
  then show ?thesis unfolding P_def .
qed

lemma disambiguateSharp11_cases:
  "(disambiguateSharp11 ms ti ht h5 b \<in> set ms \<and>
      Match.root (disambiguateSharp11 ms ti ht h5 b) = Match.root b) \<or>
   (\<exists>nm. disambiguateSharp11 ms ti ht h5 b = rename b nm)"
proof -
  define P where "P b' \<longleftrightarrow>
    (b' \<in> set ms \<and> Match.root b' = Match.root b) \<or> (\<exists>nm. b' = rename b nm)" for b'
  have keep: "P b" unfolding P_def by (intro disjI2 exI[of _ "name (pattern b)"]) simp
  have ren: "P (rename b nm)" for nm unfolding P_def by blast
  have fnd: "P x" if "find Q ms = Some x" "\<And>m. Q m \<Longrightarrow> Match.root m = Match.root b" for Q x
    using find_SomeD[OF that(1)] that(2) unfolding P_def by blast
  have "P (disambiguateSharp11 ms ti ht h5 b)"
    unfolding disambiguateSharp11_def Let_def
    by (auto split: option.split intro!: keep ren elim: fnd)
  then show ?thesis unfolding P_def .
qed

lemma disambiguateB13_cases:
  "(disambiguateB13 ms h8 h5 h7 b \<in> set ms \<and>
      Match.root (disambiguateB13 ms h8 h5 h7 b) = Match.root b) \<or>
   (\<exists>nm. disambiguateB13 ms h8 h5 h7 b = rename b nm)"
proof -
  define P where "P b' \<longleftrightarrow>
    (b' \<in> set ms \<and> Match.root b' = Match.root b) \<or> (\<exists>nm. b' = rename b nm)" for b'
  have keep: "P b" unfolding P_def by (intro disjI2 exI[of _ "name (pattern b)"]) simp
  have ren: "P (rename b nm)" for nm unfolding P_def by blast
  have fnd: "P x" if "find Q ms = Some x" "\<And>m. Q m \<Longrightarrow> Match.root m = Match.root b" for Q x
    using find_SomeD[OF that(1)] that(2) unfolding P_def by blast
  have "P (disambiguateB13 ms h8 h5 h7 b)"
    unfolding disambiguateB13_def Let_def
    by (auto split: option.split intro!: keep ren elim: fnd)
  then show ?thesis unfolding P_def .
qed

text \<open>A match that is a member of the list up to the name of its pattern.\<close>

lemma step_from_member:
  assumes "\<exists>m\<in>set ms. \<exists>nm. b = rename m nm \<and> Match.root m = r"
    and "(b' \<in> set ms \<and> Match.root b' = Match.root b) \<or> (\<exists>nm. b' = rename b nm)"
  shows "\<exists>m\<in>set ms. \<exists>nm. b' = rename m nm \<and> Match.root m = r"
proof -
  from assms(1) obtain m nm where m: "m \<in> set ms" "b = rename m nm" "Match.root m = r"
    by blast
  from assms(2) show ?thesis
  proof
    assume "b' \<in> set ms \<and> Match.root b' = Match.root b"
    then have "b' \<in> set ms" "b' = rename b' (name (pattern b'))" "Match.root b' = r"
      using m by simp_all
    then show ?thesis by blast
  next
    assume "\<exists>nm. b' = rename b nm"
    then obtain n2 where "b' = rename m n2" using m by auto
    then show ?thesis using m by blast
  qed
qed

lemma refineBest_from_member:
  assumes "b \<in> set ms"
  shows "\<exists>m\<in>set ms. \<exists>nm. refineBest ms sn u b = rename m nm \<and> Match.root m = Match.root b"
proof -
  have 0: "\<exists>m\<in>set ms. \<exists>nm. b = rename m nm \<and> Match.root m = Match.root b"
    using assms by (intro bexI[of _ b] exI[of _ "name (pattern b)"]) simp_all
  note 1 = step_from_member[OF 0 disambiguateSharp9_cases]
  note 2 = step_from_member[OF 1 disambiguateSharp11_cases]
  note 3 = step_from_member[OF 2 disambiguateB13_cases]
  show ?thesis unfolding refineBest_def Let_def by (rule 3)
qed

lemma sortMatches_set [simp]: "set (sortMatches ms) = set ms"
  by (simp add: sortMatches_def)

lemma sortMatches_Nil [simp]: "sortMatches ms = [] \<longleftrightarrow> ms = []"
  by (metis sortMatches_set set_empty)

lemma sortMatches_first_member: "ms \<noteq> [] \<Longrightarrow> sortMatches ms ! 0 \<in> set ms"
  by (metis sortMatches_set sortMatches_Nil nth_mem length_greater_0_conv)

lemma sortMatches_first_max:
  assumes "m \<in> set ms"
  shows "score m \<le> score (sortMatches ms ! 0)"
proof -
  have s: "sorted (map (\<lambda>m. - score m) (sortMatches ms))"
    by (simp add: sortMatches_def)
  from assms have ne: "sortMatches ms \<noteq> []" by auto
  then obtain b rest where br: "sortMatches ms = b # rest" by (cases "sortMatches ms") auto
  have "m \<in> set (b # rest)" using assms br sortMatches_set by metis
  with s br have "- score b \<le> - score m" by auto
  then show ?thesis using br by simp
qed

subsection \<open>The frame of the refinement\<close>

text \<open>
  Claim C7. Each of the three refinement steps returns either a match of the list it
  searches or a copy of its argument in which only the name of the pattern differs: the
  intervals, the priority and the omit-fifth flag of the pattern, and the root, score and
  flags of the match are those of the argument. The match that is assembled into the
  result is therefore a match of the generated list up to the name of its pattern, and
  the intervals of the result are the intervals of that match's pattern.
\<close>

theorem refinement_only_renames_or_switches:
  "((disambiguateSharp9 ms ti h3 hM3 b \<in> set ms) \<or>
      (\<exists>nm. disambiguateSharp9 ms ti h3 hM3 b = rename b nm)) \<and>
   ((disambiguateSharp11 ms ti ht h5 b \<in> set ms) \<or>
      (\<exists>nm. disambiguateSharp11 ms ti ht h5 b = rename b nm)) \<and>
   ((disambiguateB13 ms h8 h5 h7 b \<in> set ms) \<or>
      (\<exists>nm. disambiguateB13 ms h8 h5 h7 b = rename b nm)) \<and>
   (ChordPattern.intervals (pattern (rename b nm)) = ChordPattern.intervals (pattern b) \<and>
    priority (pattern (rename b nm)) = priority (pattern b) \<and>
    allowOmit5th (pattern (rename b nm)) = allowOmit5th (pattern b) \<and>
    rename b nm = b\<lparr>pattern := (pattern b)\<lparr>name := nm\<rparr>\<rparr>) \<and>
   (analyzeChord ns = Inr (Some a) \<and>
    generateMatches (uniquePitchClassesOf (sort ns)) \<noteq> [] \<longrightarrow>
      (\<exists>m\<in>set (generateMatches (uniquePitchClassesOf (sort ns))).
         ChordAnalysis.intervals a = ChordPattern.intervals (pattern m) \<and>
         detectedRootPitchClass a = Match.root m \<and>
         ChordAnalysis.isRootless a = Some (Match.isRootless m)))"
proof -
  have steps:
    "(disambiguateSharp9 ms ti h3 hM3 b \<in> set ms) \<or>
       (\<exists>nm. disambiguateSharp9 ms ti h3 hM3 b = rename b nm)"
    "(disambiguateSharp11 ms ti ht h5 b \<in> set ms) \<or>
       (\<exists>nm. disambiguateSharp11 ms ti ht h5 b = rename b nm)"
    "(disambiguateB13 ms h8 h5 h7 b \<in> set ms) \<or>
       (\<exists>nm. disambiguateB13 ms h8 h5 h7 b = rename b nm)"
    using disambiguateSharp9_cases[of ms ti h3 hM3 b]
      disambiguateSharp11_cases[of ms ti ht h5 b]
      disambiguateB13_cases[of ms h8 h5 h7 b]
    by blast+
  have frame:
    "ChordPattern.intervals (pattern (rename b nm)) = ChordPattern.intervals (pattern b) \<and>
     priority (pattern (rename b nm)) = priority (pattern b) \<and>
     allowOmit5th (pattern (rename b nm)) = allowOmit5th (pattern b) \<and>
     rename b nm = b\<lparr>pattern := (pattern b)\<lparr>name := nm\<rparr>\<rparr>"
    by (simp add: rename_def)
  have final: "\<exists>m\<in>set (generateMatches (uniquePitchClassesOf (sort ns))).
         ChordAnalysis.intervals a = ChordPattern.intervals (pattern m) \<and>
         detectedRootPitchClass a = Match.root m \<and>
         ChordAnalysis.isRootless a = Some (Match.isRootless m)"
    if a: "analyzeChord ns = Inr (Some a)"
      and ne: "generateMatches (uniquePitchClassesOf (sort ns)) \<noteq> []"
  proof -
    let ?u = "uniquePitchClassesOf (sort ns)"
    let ?ms = "generateMatches ?u"
    let ?b0 = "sortMatches ?ms ! 0"
    have b0: "?b0 \<in> set (sortMatches ?ms)"
      using sortMatches_first_member[OF ne] by simp
    from refineBest_from_member[OF b0, of "sort ns" ?u]
    obtain m nm where m: "m \<in> set ?ms"
      "refineBest (sortMatches ?ms) (sort ns) ?u ?b0 = rename m nm"
      by auto
    from a ne have "ns \<noteq> []" by (auto simp: analyzeChord_def)
    with a ne m(2) have
      "assemble (sort ns) ?u (js_rem (sort ns ! 0) 12) ?b0 (rename m nm) = Inr (Some a)"
      by (simp add: analyzeChord_def Let_def)
    then have "ChordAnalysis.intervals a = ChordPattern.intervals (pattern m) \<and>
         detectedRootPitchClass a = Match.root m \<and>
         ChordAnalysis.isRootless a = Some (Match.isRootless m)"
      by (auto simp: assemble_def Let_def split: sum.splits)
    with m(1) show ?thesis by blast
  qed
  from steps frame final show ?thesis by blast
qed

subsection \<open>The exact bonus\<close>

lemma generated_pattern_in_catalog:
  "m \<in> set (generateMatches u) \<Longrightarrow> pattern m \<in> set CHORD_PATTERNS"
  by (erule generateMatches_cases) (simp_all add: rootedMatches_props rootlessMatches_props)

lemma exact_score:
  assumes "e \<in> set (generateMatches u)" "isExact e"
  shows "score e = priority (pattern e) * 100 + 1000"
  using assms(1)
proof (cases rule: generateMatches_cases)
  case (rooted r p)
  then show ?thesis using rootedMatches_props(1,4)[OF rooted(3)] assms(2) by simp
next
  case (rootless r p)
  then show ?thesis using rootlessMatches_props(4)[OF rootless(5)] assms(2) by simp
qed

lemma non_exact_score:
  assumes "m \<in> set (generateMatches u)" "\<not> isExact m"
  shows "score m \<le> priority (pattern m) * 100"
  using assms(1)
proof (cases rule: generateMatches_cases)
  case (rooted r p)
  then show ?thesis using rootedMatches_props(1,5)[OF rooted(3)] assms(2) by simp
next
  case (rootless r p)
  have "0 \<le> priority p" using priority_bounds[OF rootless(4)] by simp
  then show ?thesis
    using rootlessMatches_props(1)[OF rootless(5)] rootlessMatches_props(5)[OF rootless(5)]
    by simp
qed

text \<open>
  Claim C2, as amended. An exact match scores a hundred times the priority of its pattern
  plus 1000, a match that is not exact at most a hundred times the priority of its
  pattern. So an exact match outscores every match of the same input that is not exact
  and whose pattern has a priority less than ten above its own; and when every match that
  is not exact is of this kind, the first match after sorting is exact.
\<close>

theorem exact_bonus_within_ten_priorities:
  assumes "e \<in> set (generateMatches u)" and "isExact e"
  shows "score e = priority (pattern e) * 100 + 1000 \<and>
    (\<forall>m\<in>set (generateMatches u).
       \<not> isExact m \<longrightarrow> score m \<le> priority (pattern m) * 100 \<and>
         (priority (pattern m) < priority (pattern e) + 10 \<longrightarrow> score m < score e)) \<and>
    ((\<forall>m\<in>set (generateMatches u).
        \<not> isExact m \<longrightarrow> priority (pattern m) < priority (pattern e) + 10) \<longrightarrow>
      isExact (sortMatches (generateMatches u) ! 0))"
proof (intro conjI ballI impI)
  show es: "score e = priority (pattern e) * 100 + 1000"
    by (rule exact_score[OF assms])
  show "score m \<le> priority (pattern m) * 100"
    if "m \<in> set (generateMatches u)" "\<not> isExact m" for m
    by (rule non_exact_score[OF that])
  show lt: "score m < score e"
    if "m \<in> set (generateMatches u)" "\<not> isExact m"
      "priority (pattern m) < priority (pattern e) + 10" for m
    using non_exact_score[OF that(1,2)] that(3) es by simp
  show "isExact (sortMatches (generateMatches u) ! 0)"
    if all: "\<forall>m\<in>set (generateMatches u).
        \<not> isExact m \<longrightarrow> priority (pattern m) < priority (pattern e) + 10"
  proof (rule ccontr)
    let ?b = "sortMatches (generateMatches u) ! 0"
    assume ne: "\<not> isExact ?b"
    have ms: "generateMatches u \<noteq> []" using assms(1) by auto
    have b: "?b \<in> set (generateMatches u)" by (rule sortMatches_first_member[OF ms])
    have "score ?b < score e" using lt[OF b ne] all b ne by blast
    moreover have "score e \<le> score ?b" by (rule sortMatches_first_max[OF assms(1)])
    ultimately show False by simp
  qed
qed

subsection \<open>Totality and the spelling of a sounded root\<close>

lemma js_rem_nonneg: "0 \<le> n \<Longrightarrow> js_rem n 12 = n mod 12"
  by (auto simp: js_rem_def sgn_if)

lemma js_rem_range: "0 \<le> n \<Longrightarrow> 0 \<le> js_rem n 12 \<and> js_rem n 12 \<le> 11"
  by (simp add: js_rem_nonneg)

lemma pitch_class_cases:
  assumes "0 \<le> r" "r \<le> (11::int)"
  shows "r \<in> {0, 1, 2, 3, 4, 5, 6, 7, 8, 9, 10, 11}"
  using assms by (simp only: insert_iff empty_iff) presburger

lemma ROOT_SPELLING_defined:
  assumes "0 \<le> r" "r \<le> 11"
  shows "\<exists>rs. ROOT_SPELLING r = Some rs"
  using pitch_class_cases[OF assms] by (auto simp: ROOT_SPELLING_def)

lemma if_Inr: "(if c then Inr a else Inr b) = Inr (if c then a else b)"
  by simp

lemma getRootSpelling_defined:
  assumes "0 \<le> r" "r \<le> 11"
  shows "\<exists>s. getRootSpelling r ctx = Inr s"
proof -
  from ROOT_SPELLING_defined[OF assms] obtain rs where rs: "ROOT_SPELLING r = Some rs"
    by blast
  show ?thesis
    unfolding getRootSpelling_def Let_def rs option.case if_Inr by blast
qed

lemma getChordToneSpelling_defined:
  assumes "0 \<le> r" "r \<le> 11"
  shows "\<exists>s. getChordToneSpelling pc r = Inr s"
proof -
  from ROOT_SPELLING_defined[OF assms] obtain rs where rs: "ROOT_SPELLING r = Some rs"
    by blast
  show ?thesis
    unfolding getChordToneSpelling_def Let_def rs option.case by blast
qed

lemma spellAll_defined:
  assumes "0 \<le> r" "r \<le> 11"
  shows "\<exists>ss. spellAll ns r = Inr ss"
proof (induction ns)
  case Nil
  show ?case by simp
next
  case (Cons n ns)
  from getChordToneSpelling_defined[OF assms, of "js_rem n 12"] Cons
  show ?case by auto
qed

lemma set_uniquePitchClassesOf [simp]:
  "set (uniquePitchClassesOf s) = (\<lambda>n. js_rem n 12) ` set s"
  by (simp add: uniquePitchClassesOf_def)

lemma generated_root:
  assumes "m \<in> set (generateMatches u)"
  shows "if Match.isRootless m then 0 \<le> Match.root m \<and> Match.root m \<le> 11 \<and> Match.root m \<notin> set u
         else Match.root m \<in> set u"
  using assms
proof (cases rule: generateMatches_cases)
  case (rooted r p)
  then show ?thesis using rootedMatches_props(2,3)[OF rooted(3)] by simp
next
  case (rootless r p)
  then show ?thesis using rootlessMatches_props(2,3)[OF rootless(5)] by simp
qed

lemma fallbackAnalysis_defined:
  assumes "0 \<le> b" "b \<le> 11"
  shows "\<exists>a. fallbackAnalysis s u b = Inr (Some a)"
proof -
  from getRootSpelling_defined[OF assms, of "Some u"]
  obtain rn where rn: "getRootSpelling b (Some u) = Inr rn" by blast
  from spellAll_defined[OF assms, of s]
  obtain ss where ss: "spellAll s b = Inr ss" by blast
  show ?thesis unfolding fallbackAnalysis_def rn ss by simp
qed

lemma assemble_defined:
  assumes "0 \<le> Match.root b" "Match.root b \<le> 11"
  shows "\<exists>a. assemble s u bpc b0 b = Inr (Some a)"
proof -
  from getRootSpelling_defined[OF assms, of "Some u"]
  obtain rn where rn: "getRootSpelling (Match.root b) (Some u) = Inr rn" by blast
  from getChordToneSpelling_defined[OF assms, of bpc]
  obtain bn where bn: "getChordToneSpelling bpc (Match.root b) = Inr bn" by blast
  show ?thesis unfolding assemble_def Let_def rn bn by simp
qed

text \<open>
  Claim C3. \<^verbatim>\<open>analyzeChord\<close> returns \<^verbatim>\<open>null\<close> exactly for the empty input: for the empty
  list it returns \<^verbatim>\<open>null\<close>, and for every non-empty list of MIDI note numbers (integers
  from 0) it returns an analysis, without an exception.
\<close>

theorem analyzeChord_null_iff_empty:
  assumes "list_all (\<lambda>n. 0 \<le> n) ns"
  shows "analyzeChord [] = Inr None \<and>
         (analyzeChord ns = Inr None \<longleftrightarrow> ns = []) \<and>
         (ns \<noteq> [] \<longrightarrow> (\<exists>a. analyzeChord ns = Inr (Some a)))"
proof -
  have empty: "analyzeChord [] = Inr None" by (simp add: analyzeChord_def)
  have some: "\<exists>a. analyzeChord ns = Inr (Some a)" if ne: "ns \<noteq> []"
  proof -
    let ?s = "sort ns"
    let ?u = "uniquePitchClassesOf ?s"
    let ?ms = "generateMatches ?u"
    have nonneg: "0 \<le> n" if "n \<in> set ns" for n
      using assms that by (simp add: list_all_iff)
    have u_range: "0 \<le> r \<and> r \<le> 11" if "r \<in> set ?u" for r
      using that js_rem_range nonneg by auto
    have s0: "?s ! 0 \<in> set ns"
      using ne by (metis length_greater_0_conv length_sort nth_mem set_sort)
    have bpc: "0 \<le> js_rem (?s ! 0) 12" "js_rem (?s ! 0) 12 \<le> 11"
      using js_rem_range[OF nonneg[OF s0]] by simp_all
    show ?thesis
    proof (cases "?ms = []")
      case True
      with ne fallbackAnalysis_defined[OF bpc, of ?s ?u] show ?thesis
        by (simp add: analyzeChord_def Let_def)
    next
      case False
      let ?b0 = "sortMatches ?ms ! 0"
      have b0: "?b0 \<in> set (sortMatches ?ms)"
        using sortMatches_first_member[OF False] by simp
      from refineBest_from_member[OF b0, of ?s ?u]
      obtain m nm where m: "m \<in> set ?ms"
        "refineBest (sortMatches ?ms) ?s ?u ?b0 = rename m nm"
        by auto
      have "0 \<le> Match.root m \<and> Match.root m \<le> 11"
        using generated_root[OF m(1)] u_range by (auto split: if_splits)
      then have r: "0 \<le> Match.root (rename m nm)" "Match.root (rename m nm) \<le> 11"
        by simp_all
      from assemble_defined[OF r, of ?s ?u "js_rem (?s ! 0) 12" ?b0] ne False m(2)
      show ?thesis by (simp add: analyzeChord_def Let_def)
    qed
  qed
  have "analyzeChord ns = Inr None \<longleftrightarrow> ns = []"
    using empty some by (cases "ns = []") auto
  with empty some show ?thesis by blast
qed

lemma getRootSpelling_Eb:
  "3 \<in> set u \<Longrightarrow> getRootSpelling 3 (Some u) = Inr ''Eb''"
  by (simp add: getRootSpelling_def)

text \<open>
  Claim C9. Whenever the analysis detects the root pitch class 3 and the result is not
  rootless (the fallback result included), the root is spelled \<^verbatim>\<open>Eb\<close>: the context of
  the spelling is the set of sounded pitch classes, which then holds 3, a flat indicator.
\<close>

theorem sounded_root_3_is_E_flat:
  assumes "analyzeChord ns = Inr (Some a)"
    and "detectedRootPitchClass a = 3"
    and "ChordAnalysis.isRootless a \<noteq> Some True"
  shows "ChordAnalysis.root a = ''Eb'' \<and> ChordAnalysis.root a \<noteq> ''D#''"
proof -
  let ?s = "sort ns"
  let ?u = "uniquePitchClassesOf ?s"
  let ?ms = "generateMatches ?u"
  from assms(1) have ne: "ns \<noteq> []" by (auto simp: analyzeChord_def)
  have s0: "?s ! 0 \<in> set ?s"
    using ne by (metis length_greater_0_conv length_sort nth_mem)
  have "ChordAnalysis.root a = ''Eb''"
  proof (cases "?ms = []")
    case True
    with assms(1) ne have fb: "fallbackAnalysis ?s ?u (js_rem (?s ! 0) 12) = Inr (Some a)"
      by (simp add: analyzeChord_def Let_def)
    then have "detectedRootPitchClass a = js_rem (?s ! 0) 12"
      by (auto simp: fallbackAnalysis_def split: sum.splits)
    with assms(2) have b3: "js_rem (?s ! 0) 12 = 3" by simp
    then have "3 \<in> set ?u" using s0 by (force simp del: set_sort)
    from fb getRootSpelling_Eb[OF this] b3 show ?thesis
      by (auto simp: fallbackAnalysis_def split: sum.splits)
  next
    case False
    let ?b0 = "sortMatches ?ms ! 0"
    have b0: "?b0 \<in> set (sortMatches ?ms)"
      using sortMatches_first_member[OF False] by simp
    from refineBest_from_member[OF b0, of ?s ?u]
    obtain m nm where m: "m \<in> set ?ms"
      "refineBest (sortMatches ?ms) ?s ?u ?b0 = rename m nm"
      by auto
    from assms(1) ne False m(2) have
      asm: "assemble ?s ?u (js_rem (?s ! 0) 12) ?b0 (rename m nm) = Inr (Some a)"
      by (simp add: analyzeChord_def Let_def)
    then have "detectedRootPitchClass a = Match.root m"
      "ChordAnalysis.isRootless a = Some (Match.isRootless m)"
      by (auto simp: assemble_def Let_def split: sum.splits)
    with assms(2,3) have "Match.root m = 3" "\<not> Match.isRootless m" by simp_all
    with generated_root[OF m(1)] have "3 \<in> set ?u" by simp
    from asm getRootSpelling_Eb[OF this] \<open>Match.root m = 3\<close> show ?thesis
      by (auto simp: assemble_def Let_def split: sum.splits)
  qed
  then show ?thesis by simp
qed

subsection \<open>What the result depends on\<close>

lemma matched_result:
  assumes "analyzeChord ns = Inr (Some a)"
  shows "ChordAnalysis.isRootless a \<noteq> None \<longleftrightarrow>
         generateMatches (uniquePitchClassesOf (sort ns)) \<noteq> []"
proof -
  from assms have ne: "ns \<noteq> []" by (auto simp: analyzeChord_def)
  show ?thesis
  proof (cases "generateMatches (uniquePitchClassesOf (sort ns)) = []")
    case True
    with assms ne show ?thesis
      by (auto simp: analyzeChord_def Let_def fallbackAnalysis_def split: sum.splits)
  next
    case False
    with assms ne show ?thesis
      by (auto simp: analyzeChord_def Let_def assemble_def split: sum.splits)
  qed
qed



subsection \<open>Shifting a chord by octaves\<close>






















subsection \<open>The two copies of the analysis\<close>

lemma inline_ROOT_SPELLING_eq: "inline_ROOT_SPELLING = ROOT_SPELLING"
  by ((intro ext)?, simp only: inline_ROOT_SPELLING_def ROOT_SPELLING_def )

lemma inline_getRootSpelling_eq: "inline_getRootSpelling = getRootSpelling"
  by ((intro ext)?, simp only: inline_getRootSpelling_def getRootSpelling_def inline_ROOT_SPELLING_eq)

lemma inline_getChordToneSpelling_eq: "inline_getChordToneSpelling = getChordToneSpelling"
  by ((intro ext)?, simp only: inline_getChordToneSpelling_def getChordToneSpelling_def inline_ROOT_SPELLING_eq inline_getRootSpelling_eq)

lemma inline_normalizeIntervals_eq: "inline_normalizeIntervals = normalizeIntervals"
  by ((intro ext)?, simp only: inline_normalizeIntervals_def normalizeIntervals_def inline_ROOT_SPELLING_eq inline_getRootSpelling_eq inline_getChordToneSpelling_eq)

lemma inline_calculateActualIntervals_eq: "inline_calculateActualIntervals = calculateActualIntervals"
  by ((intro ext)?, simp only: inline_calculateActualIntervals_def calculateActualIntervals_def inline_ROOT_SPELLING_eq inline_getRootSpelling_eq inline_getChordToneSpelling_eq inline_normalizeIntervals_eq)

lemma inline_getActualIntervalForPitchClass_eq: "inline_getActualIntervalForPitchClass = getActualIntervalForPitchClass"
  by ((intro ext)?, simp only: inline_getActualIntervalForPitchClass_def getActualIntervalForPitchClass_def inline_ROOT_SPELLING_eq inline_getRootSpelling_eq inline_getChordToneSpelling_eq inline_normalizeIntervals_eq inline_calculateActualIntervals_eq)

lemma inline_disambiguateTensions_eq: "inline_disambiguateTensions = disambiguateTensions"
  by ((intro ext)?, simp only: inline_disambiguateTensions_def disambiguateTensions_def inline_ROOT_SPELLING_eq inline_getRootSpelling_eq inline_getChordToneSpelling_eq inline_normalizeIntervals_eq inline_calculateActualIntervals_eq inline_getActualIntervalForPitchClass_eq)

lemma inline_COMMON_EXTENSIONS_eq: "inline_COMMON_EXTENSIONS = COMMON_EXTENSIONS"
  by ((intro ext)?, simp only: inline_COMMON_EXTENSIONS_def COMMON_EXTENSIONS_def inline_ROOT_SPELLING_eq inline_getRootSpelling_eq inline_getChordToneSpelling_eq inline_normalizeIntervals_eq inline_calculateActualIntervals_eq inline_getActualIntervalForPitchClass_eq inline_disambiguateTensions_eq)

lemma inline_calculateExtraNotesPenalty_eq: "inline_calculateExtraNotesPenalty = calculateExtraNotesPenalty"
  by ((intro ext)?, simp only: inline_calculateExtraNotesPenalty_def calculateExtraNotesPenalty_def inline_ROOT_SPELLING_eq inline_getRootSpelling_eq inline_getChordToneSpelling_eq inline_normalizeIntervals_eq inline_calculateActualIntervals_eq inline_getActualIntervalForPitchClass_eq inline_disambiguateTensions_eq inline_COMMON_EXTENSIONS_eq)

lemma inline_CHORD_PATTERNS_eq: "inline_CHORD_PATTERNS = CHORD_PATTERNS"
  by ((intro ext)?, simp only: inline_CHORD_PATTERNS_def CHORD_PATTERNS_def inline_ROOT_SPELLING_eq inline_getRootSpelling_eq inline_getChordToneSpelling_eq inline_normalizeIntervals_eq inline_calculateActualIntervals_eq inline_getActualIntervalForPitchClass_eq inline_disambiguateTensions_eq inline_COMMON_EXTENSIONS_eq inline_calculateExtraNotesPenalty_eq)

lemma inline_rootedMatches_eq: "inline_rootedMatches = rootedMatches"
  by ((intro ext)?, simp only: inline_rootedMatches_def rootedMatches_def inline_ROOT_SPELLING_eq inline_getRootSpelling_eq inline_getChordToneSpelling_eq inline_normalizeIntervals_eq inline_calculateActualIntervals_eq inline_getActualIntervalForPitchClass_eq inline_disambiguateTensions_eq inline_COMMON_EXTENSIONS_eq inline_calculateExtraNotesPenalty_eq inline_CHORD_PATTERNS_eq)

lemma inline_rootlessMatches_eq: "inline_rootlessMatches = rootlessMatches"
  by ((intro ext)?, simp only: inline_rootlessMatches_def rootlessMatches_def inline_ROOT_SPELLING_eq inline_getRootSpelling_eq inline_getChordToneSpelling_eq inline_normalizeIntervals_eq inline_calculateActualIntervals_eq inline_getActualIntervalForPitchClass_eq inline_disambiguateTensions_eq inline_COMMON_EXTENSIONS_eq inline_calculateExtraNotesPenalty_eq inline_CHORD_PATTERNS_eq inline_rootedMatches_eq)

lemma inline_intervalsFrom_eq: "inline_intervalsFrom = intervalsFrom"
  by ((intro ext)?, simp only: inline_intervalsFrom_def intervalsFrom_def inline_ROOT_SPELLING_eq inline_getRootSpelling_eq inline_getChordToneSpelling_eq inline_normalizeIntervals_eq inline_calculateActualIntervals_eq inline_getActualIntervalForPitchClass_eq inline_disambiguateTensions_eq inline_COMMON_EXTENSIONS_eq inline_calculateExtraNotesPenalty_eq inline_CHORD_PATTERNS_eq inline_rootedMatches_eq inline_rootlessMatches_eq)

lemma inline_generateMatches_eq: "inline_generateMatches = generateMatches"
  by ((intro ext)?, simp only: inline_generateMatches_def generateMatches_def inline_ROOT_SPELLING_eq inline_getRootSpelling_eq inline_getChordToneSpelling_eq inline_normalizeIntervals_eq inline_calculateActualIntervals_eq inline_getActualIntervalForPitchClass_eq inline_disambiguateTensions_eq inline_COMMON_EXTENSIONS_eq inline_calculateExtraNotesPenalty_eq inline_CHORD_PATTERNS_eq inline_rootedMatches_eq inline_rootlessMatches_eq inline_intervalsFrom_eq)

lemma inline_disambiguateSharp9_eq: "inline_disambiguateSharp9 = disambiguateSharp9"
  by ((intro ext)?, simp only: inline_disambiguateSharp9_def disambiguateSharp9_def inline_ROOT_SPELLING_eq inline_getRootSpelling_eq inline_getChordToneSpelling_eq inline_normalizeIntervals_eq inline_calculateActualIntervals_eq inline_getActualIntervalForPitchClass_eq inline_disambiguateTensions_eq inline_COMMON_EXTENSIONS_eq inline_calculateExtraNotesPenalty_eq inline_CHORD_PATTERNS_eq inline_rootedMatches_eq inline_rootlessMatches_eq inline_intervalsFrom_eq inline_generateMatches_eq)

lemma inline_disambiguateSharp11_eq: "inline_disambiguateSharp11 = disambiguateSharp11"
  by ((intro ext)?, simp only: inline_disambiguateSharp11_def disambiguateSharp11_def inline_ROOT_SPELLING_eq inline_getRootSpelling_eq inline_getChordToneSpelling_eq inline_normalizeIntervals_eq inline_calculateActualIntervals_eq inline_getActualIntervalForPitchClass_eq inline_disambiguateTensions_eq inline_COMMON_EXTENSIONS_eq inline_calculateExtraNotesPenalty_eq inline_CHORD_PATTERNS_eq inline_rootedMatches_eq inline_rootlessMatches_eq inline_intervalsFrom_eq inline_generateMatches_eq inline_disambiguateSharp9_eq)

lemma inline_disambiguateB13_eq: "inline_disambiguateB13 = disambiguateB13"
  by ((intro ext)?, simp only: inline_disambiguateB13_def disambiguateB13_def inline_ROOT_SPELLING_eq inline_getRootSpelling_eq inline_getChordToneSpelling_eq inline_normalizeIntervals_eq inline_calculateActualIntervals_eq inline_getActualIntervalForPitchClass_eq inline_disambiguateTensions_eq inline_COMMON_EXTENSIONS_eq inline_calculateExtraNotesPenalty_eq inline_CHORD_PATTERNS_eq inline_rootedMatches_eq inline_rootlessMatches_eq inline_intervalsFrom_eq inline_generateMatches_eq inline_disambiguateSharp9_eq inline_disambiguateSharp11_eq)

lemma inline_spellAll_eq: "inline_spellAll = spellAll"
proof (intro ext)
  fix ns r
  show "inline_spellAll ns r = spellAll ns r"
    by (induction ns) (simp_all split: sum.splits add: inline_ROOT_SPELLING_eq inline_getRootSpelling_eq inline_getChordToneSpelling_eq inline_normalizeIntervals_eq inline_calculateActualIntervals_eq inline_getActualIntervalForPitchClass_eq inline_disambiguateTensions_eq inline_COMMON_EXTENSIONS_eq inline_calculateExtraNotesPenalty_eq inline_CHORD_PATTERNS_eq inline_rootedMatches_eq inline_rootlessMatches_eq inline_intervalsFrom_eq inline_generateMatches_eq inline_disambiguateSharp9_eq inline_disambiguateSharp11_eq inline_disambiguateB13_eq)
qed

lemma inline_uniquePitchClassesOf_eq: "inline_uniquePitchClassesOf = uniquePitchClassesOf"
  by ((intro ext)?, simp only: inline_uniquePitchClassesOf_def uniquePitchClassesOf_def inline_ROOT_SPELLING_eq inline_getRootSpelling_eq inline_getChordToneSpelling_eq inline_normalizeIntervals_eq inline_calculateActualIntervals_eq inline_getActualIntervalForPitchClass_eq inline_disambiguateTensions_eq inline_COMMON_EXTENSIONS_eq inline_calculateExtraNotesPenalty_eq inline_CHORD_PATTERNS_eq inline_rootedMatches_eq inline_rootlessMatches_eq inline_intervalsFrom_eq inline_generateMatches_eq inline_disambiguateSharp9_eq inline_disambiguateSharp11_eq inline_disambiguateB13_eq inline_spellAll_eq)

lemma inline_sortMatches_eq: "inline_sortMatches = sortMatches"
  by ((intro ext)?, simp only: inline_sortMatches_def sortMatches_def inline_ROOT_SPELLING_eq inline_getRootSpelling_eq inline_getChordToneSpelling_eq inline_normalizeIntervals_eq inline_calculateActualIntervals_eq inline_getActualIntervalForPitchClass_eq inline_disambiguateTensions_eq inline_COMMON_EXTENSIONS_eq inline_calculateExtraNotesPenalty_eq inline_CHORD_PATTERNS_eq inline_rootedMatches_eq inline_rootlessMatches_eq inline_intervalsFrom_eq inline_generateMatches_eq inline_disambiguateSharp9_eq inline_disambiguateSharp11_eq inline_disambiguateB13_eq inline_spellAll_eq inline_uniquePitchClassesOf_eq)

lemma inline_fallbackAnalysis_eq: "inline_fallbackAnalysis = fallbackAnalysis"
  by ((intro ext)?, simp only: inline_fallbackAnalysis_def fallbackAnalysis_def inline_ROOT_SPELLING_eq inline_getRootSpelling_eq inline_getChordToneSpelling_eq inline_normalizeIntervals_eq inline_calculateActualIntervals_eq inline_getActualIntervalForPitchClass_eq inline_disambiguateTensions_eq inline_COMMON_EXTENSIONS_eq inline_calculateExtraNotesPenalty_eq inline_CHORD_PATTERNS_eq inline_rootedMatches_eq inline_rootlessMatches_eq inline_intervalsFrom_eq inline_generateMatches_eq inline_disambiguateSharp9_eq inline_disambiguateSharp11_eq inline_disambiguateB13_eq inline_spellAll_eq inline_uniquePitchClassesOf_eq inline_sortMatches_eq)

lemma inline_refineBest_eq: "inline_refineBest = refineBest"
  by ((intro ext)?, simp only: inline_refineBest_def refineBest_def inline_ROOT_SPELLING_eq inline_getRootSpelling_eq inline_getChordToneSpelling_eq inline_normalizeIntervals_eq inline_calculateActualIntervals_eq inline_getActualIntervalForPitchClass_eq inline_disambiguateTensions_eq inline_COMMON_EXTENSIONS_eq inline_calculateExtraNotesPenalty_eq inline_CHORD_PATTERNS_eq inline_rootedMatches_eq inline_rootlessMatches_eq inline_intervalsFrom_eq inline_generateMatches_eq inline_disambiguateSharp9_eq inline_disambiguateSharp11_eq inline_disambiguateB13_eq inline_spellAll_eq inline_uniquePitchClassesOf_eq inline_sortMatches_eq inline_fallbackAnalysis_eq)

lemma inline_assemble_eq: "inline_assemble = assemble"
  by ((intro ext)?, simp only: inline_assemble_def assemble_def inline_ROOT_SPELLING_eq inline_getRootSpelling_eq inline_getChordToneSpelling_eq inline_normalizeIntervals_eq inline_calculateActualIntervals_eq inline_getActualIntervalForPitchClass_eq inline_disambiguateTensions_eq inline_COMMON_EXTENSIONS_eq inline_calculateExtraNotesPenalty_eq inline_CHORD_PATTERNS_eq inline_rootedMatches_eq inline_rootlessMatches_eq inline_intervalsFrom_eq inline_generateMatches_eq inline_disambiguateSharp9_eq inline_disambiguateSharp11_eq inline_disambiguateB13_eq inline_spellAll_eq inline_uniquePitchClassesOf_eq inline_sortMatches_eq inline_fallbackAnalysis_eq inline_refineBest_eq)

lemma inline_analyzeChord_eq: "inline_analyzeChord = analyzeChord"
  by ((intro ext)?, simp only: inline_analyzeChord_def analyzeChord_def inline_ROOT_SPELLING_eq inline_getRootSpelling_eq inline_getChordToneSpelling_eq inline_normalizeIntervals_eq inline_calculateActualIntervals_eq inline_getActualIntervalForPitchClass_eq inline_disambiguateTensions_eq inline_COMMON_EXTENSIONS_eq inline_calculateExtraNotesPenalty_eq inline_CHORD_PATTERNS_eq inline_rootedMatches_eq inline_rootlessMatches_eq inline_intervalsFrom_eq inline_generateMatches_eq inline_disambiguateSharp9_eq inline_disambiguateSharp11_eq inline_disambiguateB13_eq inline_spellAll_eq inline_uniquePitchClassesOf_eq inline_sortMatches_eq inline_fallbackAnalysis_eq inline_refineBest_eq inline_assemble_eq)

text \<open>
  Claim C10. The \<^verbatim>\<open>analyzeChord\<close> of the monolithic application file and the exported
  \<^verbatim>\<open>analyzeChord\<close> of the library return the same result for every input list: the
  same \<^verbatim>\<open>null\<close> case, the same catalog, scoring, refinement and spelling.
\<close>

theorem inline_analyzeChord_agrees:
  "inline_analyzeChord activeNotes = analyzeChord activeNotes \<and>
   inline_CHORD_PATTERNS = CHORD_PATTERNS \<and> inline_ROOT_SPELLING = ROOT_SPELLING \<and>
   inline_generateMatches = generateMatches \<and> inline_refineBest = refineBest \<and>
   inline_getRootSpelling = getRootSpelling \<and>
   inline_getChordToneSpelling = getChordToneSpelling"
  by (simp only: inline_analyzeChord_eq inline_CHORD_PATTERNS_eq inline_ROOT_SPELLING_eq
        inline_generateMatches_eq inline_refineBest_eq inline_getRootSpelling_eq
        inline_getChordToneSpelling_eq simp_thms)

subsection \<open>Literal scenarios\<close>

lemma analyze_C7_sharp9_voicing:
  "analyzeChord [60, 64, 67, 70, 75] =
     Inr (Some \<lparr>ChordAnalysis.root = ''C'', quality = ''7#9'', bass = ''C'',
                display = ''C7#9'', intervals = [0, 3, 4, 7, 10],
                detectedRootPitchClass = 0, isRootless = Some False,
                actualIntervals = Some [0, 4, 7, 10, 15]\<rparr>)"
  by code_simp

lemma analyze_C7_cluster_voicing:
  "analyzeChord [60, 63, 64, 67, 70] =
     Inr (Some \<lparr>ChordAnalysis.root = ''C'', quality = ''7(add b3)'', bass = ''C'',
                display = ''C7(add b3)'', intervals = [0, 3, 4, 7, 10],
                detectedRootPitchClass = 0, isRootless = Some False,
                actualIntervals = Some [0, 3, 4, 7, 10]\<rparr>)"
  by code_simp

text \<open>
  Claim C4. For the voicing 60, 64, 67, 70, 75 (the D sharp above the major third) the
  returned quality contains \<^verbatim>\<open>#9\<close> and does not contain \<^verbatim>\<open>b3\<close>; for the voicing
  60, 63, 64, 67, 70 (the same pitch classes, the D sharp below the major third) the
  returned quality contains \<^verbatim>\<open>(add b3)\<close>.
\<close>

theorem sharp9_voicing_scenario:
  "(\<exists>a. analyzeChord [60, 64, 67, 70, 75] = Inr (Some a) \<and>
        str_includes (quality a) ''#9'' \<and> \<not> str_includes (quality a) ''b3'') \<and>
   (\<exists>b. analyzeChord [60, 63, 64, 67, 70] = Inr (Some b) \<and>
        str_includes (quality b) ''(add b3)'')"
  unfolding analyze_C7_sharp9_voicing analyze_C7_cluster_voicing by simp

text \<open>
  Claim C5. The notes 60, 63, 67, 70 are analysed as root C with quality \<^verbatim>\<open>min7\<close>: the
  first match after sorting is the exact \<^verbatim>\<open>min7\<close> at root C with score 5500, every other
  match has a smaller score, among them the exact \<^verbatim>\<open>6\<close> at root E flat (5200) and the
  rootless \<^verbatim>\<open>Maj9\<close> at root A flat (4350).
\<close>

theorem Cmin7_scenario:
  "(\<exists>a. analyzeChord [60, 63, 67, 70] = Inr (Some a) \<and>
        ChordAnalysis.root a = ''C'' \<and> quality a = ''min7'') \<and>
   uniquePitchClassesOf (sort [60, 63, 67, 70]) = [0, 3, 7, 10] \<and>
   (case sortMatches (generateMatches [0, 3, 7, 10]) of
      [] \<Rightarrow> False
    | b # rest \<Rightarrow>
        b = \<lparr>pattern = \<lparr>name = ''min7'', intervals = [0, 3, 7, 10], priority = 45,
                           allowOmit5th = True\<rparr>,
              root = 0, score = 45 * 100 + 1000, isRootless = False, isExact = True\<rparr> \<and>
        list_all (\<lambda>m. score m < score b) rest \<and>
        list_ex (\<lambda>m. name (pattern m) = ''6'' \<and> Match.root m = 3 \<and> isExact m \<and>
                      score m = 5200) rest \<and>
        list_ex (\<lambda>m. name (pattern m) = ''Maj9'' \<and> Match.root m = 8 \<and>
                      Match.isRootless m \<and> score m = 4350) rest)"
proof -
  have "analyzeChord [60, 63, 67, 70] =
     Inr (Some \<lparr>ChordAnalysis.root = ''C'', quality = ''min7'', bass = ''C'',
                display = ''Cmin7'', intervals = [0, 3, 7, 10],
                detectedRootPitchClass = 0, isRootless = Some False,
                actualIntervals = Some [0, 3, 7, 10]\<rparr>)"
    by code_simp
  moreover have "uniquePitchClassesOf (sort [60, 63, 67, 70]) = [0, 3, 7, 10]"
    by code_simp
  moreover have
    "(case sortMatches (generateMatches [0, 3, 7, 10]) of
        [] \<Rightarrow> False
      | b # rest \<Rightarrow>
          b = \<lparr>pattern = \<lparr>name = ''min7'', intervals = [0, 3, 7, 10], priority = 45,
                             allowOmit5th = True\<rparr>,
                root = 0, score = 45 * 100 + 1000, isRootless = False, isExact = True\<rparr> \<and>
          list_all (\<lambda>m. score m < score b) rest \<and>
          list_ex (\<lambda>m. name (pattern m) = ''6'' \<and> Match.root m = 3 \<and> isExact m \<and>
                        score m = 5200) rest \<and>
          list_ex (\<lambda>m. name (pattern m) = ''Maj9'' \<and> Match.root m = 8 \<and>
                        Match.isRootless m \<and> score m = 4350) rest)"
    by code_simp
  ultimately show ?thesis by simp
qed

text \<open>
  Claim C6. The notes 64, 67, 71, 72 are analysed as root C, quality \<^verbatim>\<open>Maj7\<close>, bass E,
  with a display string that contains \<^verbatim>\<open>/E\<close>: the first match after sorting is the
  exact \<^verbatim>\<open>Maj7\<close> at root C, the bass is the pitch class of the lowest note spelled from
  that root, and the display is the root name, the pattern name, a slash and the bass
  name, since the root differs from the bass and the match is not rootless.
\<close>

theorem Cmaj7_first_inversion_scenario:
  "(\<exists>a. analyzeChord [64, 67, 71, 72] = Inr (Some a) \<and>
        ChordAnalysis.root a = ''C'' \<and> quality a = ''Maj7'' \<and> bass a = ''E'' \<and>
        str_includes (display a) ''/E'' \<and>
        display a = ChordAnalysis.root a @ quality a @ ''/'' @ bass a \<and>
        detectedRootPitchClass a = 0 \<and> ChordAnalysis.isRootless a = Some False) \<and>
   uniquePitchClassesOf (sort [64, 67, 71, 72]) = [0, 4, 7, 11] \<and>
   sortMatches (generateMatches [0, 4, 7, 11]) ! 0 =
     \<lparr>pattern = \<lparr>name = ''Maj7'', intervals = [0, 4, 7, 11], priority = 45,
                  allowOmit5th = True\<rparr>,
      root = 0, score = 5500, isRootless = False, isExact = True\<rparr> \<and>
   getChordToneSpelling (js_rem (sort [64, 67, 71, 72] ! 0) 12) 0 = Inr ''E''"
proof -
  have "analyzeChord [64, 67, 71, 72] =
     Inr (Some \<lparr>ChordAnalysis.root = ''C'', quality = ''Maj7'', bass = ''E'',
                display = ''CMaj7/E'', intervals = [0, 4, 7, 11],
                detectedRootPitchClass = 0, isRootless = Some False,
                actualIntervals = Some [- 8, - 5, - 1, 0]\<rparr>)"
    by code_simp
  moreover have "uniquePitchClassesOf (sort [64, 67, 71, 72]) = [0, 4, 7, 11]"
    by code_simp
  moreover have "sortMatches (generateMatches [0, 4, 7, 11]) ! 0 =
     \<lparr>pattern = \<lparr>name = ''Maj7'', intervals = [0, 4, 7, 11], priority = 45,
                  allowOmit5th = True\<rparr>,
      root = 0, score = 5500, isRootless = False, isExact = True\<rparr>"
    by code_simp
  moreover have "getChordToneSpelling (js_rem (sort [64, 67, 71, 72] ! 0) 12) 0 = Inr ''E''"
    by code_simp
  ultimately show ?thesis by simp
qed

text \<open>
  Claim C8. \<^verbatim>\<open>getRootSpelling(3)\<close> without a context is \<^verbatim>\<open>Eb\<close>, and with the context
  4, 11, 6 it is \<^verbatim>\<open>D#\<close>: pitch class 3 is spelled flat, and sharp only when the context
  holds 4, 11 or 6 and no flat indicator (10, 3 or 5).
\<close>

theorem getRootSpelling_pitch_class_3:
  "getRootSpelling 3 None = Inr ''Eb'' \<and>
   getRootSpelling 3 (Some [4, 11, 6]) = Inr ''D#'' \<and>
   (\<forall>ctx. getRootSpelling 3 ctx =
      (if \<exists>c. ctx = Some c \<and> (4 \<in> set c \<or> 11 \<in> set c \<or> 6 \<in> set c) \<and>
              10 \<notin> set c \<and> 3 \<notin> set c \<and> 5 \<notin> set c
       then Inr ''D#'' else Inr ''Eb''))"
  by (auto simp: getRootSpelling_def split: option.splits)

lemma generateMatches_E_B:
  "generateMatches [4, 11] =
    [\<lparr>pattern = \<lparr>name = ''5'', intervals = [0, 7], priority = 20, allowOmit5th = False\<rparr>,
      root = 4, score = 3000, isRootless = False, isExact = True\<rparr>,
     \<lparr>pattern = \<lparr>name = ''Maj7'', intervals = [0, 4, 7, 11], priority = 45,
                  allowOmit5th = True\<rparr>,
      root = 0, score = 3070, isRootless = True, isExact = False\<rparr>,
     \<lparr>pattern = \<lparr>name = ''min7'', intervals = [0, 3, 7, 10], priority = 45,
                  allowOmit5th = True\<rparr>,
      root = 1, score = 3070, isRootless = True, isExact = False\<rparr>,
     \<lparr>pattern = \<lparr>name = ''6'', intervals = [0, 4, 7, 9], priority = 42,
                  allowOmit5th = True\<rparr>,
      root = 7, score = 2860, isRootless = True, isExact = False\<rparr>]"
  by code_simp

text \<open>
  The claim C2 as stated fails for the fifth E, B (notes 64 and 71): the exact power chord
  at root E scores 3000, the rootless \<^verbatim>\<open>Maj7\<close> at root C and the rootless \<^verbatim>\<open>min7\<close> at
  root C sharp score 3070, and the match that is selected is the rootless \<^verbatim>\<open>Maj7\<close>.
\<close>

theorem exact_power_chord_outscored:
  "uniquePitchClassesOf (sort [64, 71]) = [4, 11] \<and>
   generateMatches [4, 11] =
    [\<lparr>pattern = \<lparr>name = ''5'', intervals = [0, 7], priority = 20, allowOmit5th = False\<rparr>,
      root = 4, score = 3000, isRootless = False, isExact = True\<rparr>,
     \<lparr>pattern = \<lparr>name = ''Maj7'', intervals = [0, 4, 7, 11], priority = 45,
                  allowOmit5th = True\<rparr>,
      root = 0, score = 3070, isRootless = True, isExact = False\<rparr>,
     \<lparr>pattern = \<lparr>name = ''min7'', intervals = [0, 3, 7, 10], priority = 45,
                  allowOmit5th = True\<rparr>,
      root = 1, score = 3070, isRootless = True, isExact = False\<rparr>,
     \<lparr>pattern = \<lparr>name = ''6'', intervals = [0, 4, 7, 9], priority = 42,
                  allowOmit5th = True\<rparr>,
      root = 7, score = 2860, isRootless = True, isExact = False\<rparr>] \<and>
   sortMatches (generateMatches [4, 11]) ! 0 =
     \<lparr>pattern = \<lparr>name = ''Maj7'', intervals = [0, 4, 7, 11], priority = 45,
                  allowOmit5th = True\<rparr>,
      root = 0, score = 3070, isRootless = True, isExact = False\<rparr> \<and>
   analyzeChord [64, 71] =
     Inr (Some \<lparr>ChordAnalysis.root = ''C'', quality = ''Maj7'', bass = ''E'',
                display = ''CMaj7 (rootless)'', intervals = [0, 4, 7, 11],
                detectedRootPitchClass = 0, isRootless = Some True,
                actualIntervals = Some [4, 11]\<rparr>)"
proof -
  have "uniquePitchClassesOf (sort [64, 71]) = [4, 11]" by code_simp
  moreover have "sortMatches (generateMatches [4, 11]) ! 0 =
     \<lparr>pattern = \<lparr>name = ''Maj7'', intervals = [0, 4, 7, 11], priority = 45,
                  allowOmit5th = True\<rparr>,
      root = 0, score = 3070, isRootless = True, isExact = False\<rparr>"
    unfolding generateMatches_E_B by (simp add: sortMatches_def)
  moreover have "analyzeChord [64, 71] =
     Inr (Some \<lparr>ChordAnalysis.root = ''C'', quality = ''Maj7'', bass = ''E'',
                display = ''CMaj7 (rootless)'', intervals = [0, 4, 7, 11],
                detectedRootPitchClass = 0, isRootless = Some True,
                actualIntervals = Some [4, 11]\<rparr>)"
    by code_simp
  ultimately show ?thesis using generateMatches_E_B by simp
qed

subsection \<open>Instances of the general statements\<close>



lemma C_major_exact_member:
  "\<lparr>pattern = \<lparr>name = [], intervals = [0, 4, 7], priority = 35, allowOmit5th = False\<rparr>,
    root = 0, score = 4500, isRootless = False, isExact = True\<rparr>
     \<in> set (generateMatches [0, 4, 7]) \<and>
   \<lparr>pattern = \<lparr>name = ''madd#9'', intervals = [0, 3, 7], priority = 41,
                allowOmit5th = True\<rparr>,
    root = 4, score = 4067, isRootless = False, isExact = False\<rparr>
     \<in> set (generateMatches [0, 4, 7])"
  by code_simp

lemma generateMatches_C_minor:
  "generateMatches [0, 3, 7] =
    [\<lparr>pattern = \<lparr>name = ''madd#9'', intervals = [0, 3, 7], priority = 41,
                  allowOmit5th = True\<rparr>,
      root = 0, score = 5100, isRootless = False, isExact = True\<rparr>,
     \<lparr>pattern = \<lparr>name = ''m'', intervals = [0, 3, 7], priority = 35,
                  allowOmit5th = False\<rparr>,
      root = 0, score = 4500, isRootless = False, isExact = True\<rparr>,
     \<lparr>pattern = \<lparr>name = ''5'', intervals = [0, 7], priority = 20, allowOmit5th = False\<rparr>,
      root = 0, score = 1982, isRootless = False, isExact = False\<rparr>,
     \<lparr>pattern = \<lparr>name = ''6'', intervals = [0, 4, 7, 9], priority = 42,
                  allowOmit5th = True\<rparr>,
      root = 3, score = 4185, isRootless = False, isExact = False\<rparr>,
     \<lparr>pattern = \<lparr>name = ''minMaj7'', intervals = [0, 3, 7, 11], priority = 45,
                  allowOmit5th = True\<rparr>,
      root = 4, score = 3052, isRootless = True, isExact = False\<rparr>,
     \<lparr>pattern = \<lparr>name = ''7sus2'', intervals = [0, 2, 7, 10], priority = 46,
                  allowOmit5th = False\<rparr>,
      root = 5, score = 3630, isRootless = True, isExact = False\<rparr>,
     \<lparr>pattern = \<lparr>name = ''Maj7'', intervals = [0, 4, 7, 11], priority = 45,
                  allowOmit5th = True\<rparr>,
      root = 8, score = 3550, isRootless = True, isExact = False\<rparr>,
     \<lparr>pattern = \<lparr>name = ''min7'', intervals = [0, 3, 7, 10], priority = 45,
                  allowOmit5th = True\<rparr>,
      root = 9, score = 3052, isRootless = True, isExact = False\<rparr>,
     \<lparr>pattern = \<lparr>name = ''m7b5'', intervals = [0, 3, 6, 10], priority = 45,
                  allowOmit5th = False\<rparr>,
      root = 9, score = 3550, isRootless = True, isExact = False\<rparr>]"
  by code_simp

text \<open>
  Two instances of the statement on the exact bonus. For the C major triad the exact
  major triad (priority 35) outscores the \<^verbatim>\<open>madd#9\<close> at root E without its fifth
  (priority 41). For the C minor triad every match that is not exact has a priority below
  41 + 10, the priority of the exact \<^verbatim>\<open>madd#9\<close> plus ten, and the first match after
  sorting is exact: it is that \<^verbatim>\<open>madd#9\<close>.
\<close>

theorem exact_bonus_within_ten_priorities_witness:
  "(\<lparr>pattern = \<lparr>name = [], intervals = [0, 4, 7], priority = 35, allowOmit5th = False\<rparr>,
     root = 0, score = 4500, isRootless = False, isExact = True\<rparr>
      \<in> set (generateMatches [0, 4, 7]) \<and>
    \<lparr>pattern = \<lparr>name = ''madd#9'', intervals = [0, 3, 7], priority = 41,
                 allowOmit5th = True\<rparr>,
     root = 4, score = 4067, isRootless = False, isExact = False\<rparr>
      \<in> set (generateMatches [0, 4, 7]) \<and>
    (4500::int) = 35 * 100 + 1000 \<and> (4067::int) \<le> 41 * 100 \<and> (41::int) < 35 + 10 \<and>
    (4067::int) < 4500) \<and>
   (\<lparr>pattern = \<lparr>name = ''madd#9'', intervals = [0, 3, 7], priority = 41,
                 allowOmit5th = True\<rparr>,
     root = 0, score = 5100, isRootless = False, isExact = True\<rparr>
      \<in> set (generateMatches [0, 3, 7]) \<and>
    list_all (\<lambda>m. isExact m \<or> priority (pattern m) < 41 + 10) (generateMatches [0, 3, 7]) \<and>
    list_ex (\<lambda>m. \<not> isExact m) (generateMatches [0, 3, 7]) \<and>
    isExact (sortMatches (generateMatches [0, 3, 7]) ! 0) \<and>
    sortMatches (generateMatches [0, 3, 7]) ! 0 =
      \<lparr>pattern = \<lparr>name = ''madd#9'', intervals = [0, 3, 7], priority = 41,
                   allowOmit5th = True\<rparr>,
       root = 0, score = 5100, isRootless = False, isExact = True\<rparr>)"
proof -
  let ?e = "\<lparr>pattern = \<lparr>name = ''madd#9'', intervals = [0, 3, 7], priority = 41,
                 allowOmit5th = True\<rparr>,
     root = 0, score = 5100, isRootless = False, isExact = True\<rparr>"
  have major: "\<lparr>pattern = \<lparr>name = [], intervals = [0, 4, 7], priority = 35, allowOmit5th = False\<rparr>,
     root = 0, score = 4500, isRootless = False, isExact = True\<rparr>
      \<in> set (generateMatches [0, 4, 7]) \<and>
    \<lparr>pattern = \<lparr>name = ''madd#9'', intervals = [0, 3, 7], priority = 41,
                 allowOmit5th = True\<rparr>,
     root = 4, score = 4067, isRootless = False, isExact = False\<rparr>
      \<in> set (generateMatches [0, 4, 7]) \<and>
    (4500::int) = 35 * 100 + 1000 \<and> (4067::int) \<le> 41 * 100 \<and> (41::int) < 35 + 10 \<and>
    (4067::int) < 4500"
    using C_major_exact_member
      exact_bonus_within_ten_priorities[of
        "\<lparr>pattern = \<lparr>name = [], intervals = [0, 4, 7], priority = 35,
                      allowOmit5th = False\<rparr>,
          root = 0, score = 4500, isRootless = False, isExact = True\<rparr>" "[0, 4, 7]"]
    by simp
  have mem: "?e \<in> set (generateMatches [0, 3, 7])"
    unfolding generateMatches_C_minor by simp
  have exact: "isExact ?e" by simp
  have ante: "\<forall>m\<in>set (generateMatches [0, 3, 7]).
      \<not> isExact m \<longrightarrow> priority (pattern m) < priority (pattern ?e) + 10"
    unfolding generateMatches_C_minor by simp
  have first_exact: "isExact (sortMatches (generateMatches [0, 3, 7]) ! 0)"
    using exact_bonus_within_ten_priorities[OF mem exact] ante by blast
  have all: "list_all (\<lambda>m. isExact m \<or> priority (pattern m) < 41 + 10)
      (generateMatches [0, 3, 7])"
    unfolding generateMatches_C_minor by simp
  have some: "list_ex (\<lambda>m. \<not> isExact m) (generateMatches [0, 3, 7])"
    unfolding generateMatches_C_minor by simp
  have first: "sortMatches (generateMatches [0, 3, 7]) ! 0 = ?e"
    unfolding generateMatches_C_minor by (simp add: sortMatches_def)
  from major mem all some first_exact first show ?thesis by blast
qed

theorem analyzeChord_null_iff_empty_witness:
  "list_all (\<lambda>n. 0 \<le> n) [60, 64, 67 :: int] \<and> [60, 64, 67] \<noteq> ([] :: int list) \<and>
   analyzeChord [60, 64, 67] \<noteq> Inr None \<and>
   (\<exists>a. analyzeChord [60, 64, 67] = Inr (Some a))"
proof -
  have h: "list_all (\<lambda>n. 0 \<le> n) [60, 64, 67 :: int]" by simp
  show ?thesis using h analyzeChord_null_iff_empty[OF h] by simp
qed

theorem refinement_only_renames_or_switches_witness:
  "analyzeChord [60, 63, 64, 67, 70] =
     Inr (Some \<lparr>ChordAnalysis.root = ''C'', quality = ''7(add b3)'', bass = ''C'',
                display = ''C7(add b3)'', intervals = [0, 3, 4, 7, 10],
                detectedRootPitchClass = 0, isRootless = Some False,
                actualIntervals = Some [0, 3, 4, 7, 10]\<rparr>) \<and>
   generateMatches (uniquePitchClassesOf (sort [60, 63, 64, 67, 70])) \<noteq> [] \<and>
   (\<exists>m\<in>set (generateMatches (uniquePitchClassesOf (sort [60, 63, 64, 67, 70]))).
      ChordPattern.intervals (pattern m) = [0, 3, 4, 7, 10] \<and> Match.root m = 0 \<and>
      \<not> Match.isRootless m)"
proof -
  let ?a = "\<lparr>ChordAnalysis.root = ''C'', quality = ''7(add b3)'', bass = ''C'',
                display = ''C7(add b3)'', intervals = [0, 3, 4, 7, 10],
                detectedRootPitchClass = 0, isRootless = Some False,
                actualIntervals = Some [0, 3, 4, 7, 10]\<rparr>"
  let ?ms = "generateMatches (uniquePitchClassesOf (sort [60, 63, 64, 67, 70]))"
  note a = analyze_C7_cluster_voicing
  have ne: "?ms \<noteq> []"
    using matched_result[OF a] by simp
  have "\<exists>m\<in>set ?ms.
      ChordAnalysis.intervals ?a = ChordPattern.intervals (pattern m) \<and>
      detectedRootPitchClass ?a = Match.root m \<and>
      ChordAnalysis.isRootless ?a = Some (Match.isRootless m)"
    using refinement_only_renames_or_switches[where ns = "[60, 63, 64, 67, 70]" and a = ?a]
      a ne
    by blast
  then obtain m where m: "m \<in> set ?ms"
      "ChordAnalysis.intervals ?a = ChordPattern.intervals (pattern m)"
      "detectedRootPitchClass ?a = Match.root m"
      "ChordAnalysis.isRootless ?a = Some (Match.isRootless m)"
    by blast
  from m(2-4) have "ChordPattern.intervals (pattern m) = [0, 3, 4, 7, 10]"
      "Match.root m = 0" "\<not> Match.isRootless m"
    by simp_all
  with m(1) a ne show ?thesis by blast
qed

lemma analyze_E_flat_major:
  "analyzeChord [63, 67, 70] =
     Inr (Some \<lparr>ChordAnalysis.root = ''Eb'', quality = [], bass = ''Eb'',
                display = ''Eb'', intervals = [0, 4, 7],
                detectedRootPitchClass = 3, isRootless = Some False,
                actualIntervals = Some [0, 4, 7]\<rparr>)"
  by code_simp

theorem sounded_root_3_is_E_flat_witness:
  "\<exists>a. analyzeChord [63, 67, 70] = Inr (Some a) \<and> detectedRootPitchClass a = 3 \<and>
       ChordAnalysis.isRootless a \<noteq> Some True \<and> ChordAnalysis.root a = ''Eb'' \<and>
       ChordAnalysis.root a \<noteq> ''D#''"
  using sounded_root_3_is_E_flat[OF analyze_E_flat_major] analyze_E_flat_major by simp

end
